theory Spec2Isabelle
  imports Complex_Main
begin

section \<open>Data model of \<^verbatim>\<open>zaber_stage.py\<close>\<close>

text \<open>
  Positions and velocities are taken as real numbers: the module only compares them and
  picks one of them (\<^verbatim>\<open>max\<close>, \<^verbatim>\<open>min\<close>), which is exact on every float that is
  a number. The polling period and the reading rate are divided, so they are floats
  with their infinities and NaN, and the division rounds and overflows as a double
  does. Values have the types the source annotates (\<^verbatim>\<open>float\<close>, \<^verbatim>\<open>str\<close>,
  \<^verbatim>\<open>int\<close>, \<^verbatim>\<open>bool\<close>); \<^verbatim>\<open>self.port\<close> is optional because \<^verbatim>\<open>connect\<close> itself
  assigns \<^verbatim>\<open>None\<close> to it when no port is found.
\<close>

datatype error = ZeroDivisionError | ValueError | OverflowError

subsection \<open>Floats that are divided\<close>

text \<open>
  A float is a real number, an infinity or NaN; the sign of zero is not kept, since
  \<^verbatim>\<open>1.0 / x\<close> raises on either zero and no comparison tells them apart. A finite
  input is carried as the number it denotes, and the result of a division is rounded
  to a double: to the nearest multiple of the unit in the last place of its binade
  (53 significant bits, exponents down to the subnormal unit \<open>2\<^sup>-\<^sup>1\<^sup>0\<^sup>7\<^sup>4\<close>), ties to
  the even multiple, and to an infinity when the rounded magnitude exceeds the largest
  double.
\<close>

datatype pyfloat = Finite real | PosInf | NegInf | NaN

definition round_half_even :: "real \<Rightarrow> int" where
  "round_half_even y =
     (let f = \<lfloor>y\<rfloor> in
      if y - of_int f < 1 / 2 then f
      else if 1 / 2 < y - of_int f then f + 1
      else if even f then f else f + 1)"

definition ulp_exponent :: "real \<Rightarrow> int" where
  "ulp_exponent x = max (\<lfloor>log 2 \<bar>x\<bar>\<rfloor> - 52) (- 1074)"

definition round_double :: "real \<Rightarrow> real" where
  "round_double x =
     (if x = 0 then 0
      else of_int (round_half_even (x / 2 powr of_int (ulp_exponent x))) *
           2 powr of_int (ulp_exponent x))"

definition FLOAT_MAX :: real where
  "FLOAT_MAX = 2 ^ 1024 - 2 ^ 971"

definition to_double :: "real \<Rightarrow> pyfloat" where
  "to_double x =
     (let r = round_double x in
      if FLOAT_MAX < r then PosInf
      else if r < - FLOAT_MAX then NegInf
      else Finite r)"

text \<open>
  \<^verbatim>\<open>1.0 / x\<close> on a float \<open>x\<close>: \<^verbatim>\<open>ZeroDivisionError\<close> on zero, zero on an
  infinity, NaN on NaN, and the rounded quotient otherwise.
\<close>

definition one_over :: "pyfloat \<Rightarrow> error + pyfloat" where
  "one_over x =
     (case x of
        Finite r \<Rightarrow> if r = 0 then Inl ZeroDivisionError else Inr (to_double (1 / r))
      | PosInf \<Rightarrow> Inr (Finite 0)
      | NegInf \<Rightarrow> Inr (Finite 0)
      | NaN \<Rightarrow> Inr NaN)"

text \<open>
  The comparison \<^verbatim>\<open>a < b\<close> of two floats (false as soon as one is NaN), and the
  builtin \<^verbatim>\<open>min(a, b)\<close>, which returns \<open>a\<close> unless \<^verbatim>\<open>b < a\<close>.
\<close>

definition float_lt :: "pyfloat \<Rightarrow> pyfloat \<Rightarrow> bool" where
  "float_lt a b =
     (case a of
        NaN \<Rightarrow> False
      | PosInf \<Rightarrow> False
      | NegInf \<Rightarrow> (case b of NaN \<Rightarrow> False | NegInf \<Rightarrow> False | PosInf \<Rightarrow> True | Finite y \<Rightarrow> True)
      | Finite x \<Rightarrow>
          (case b of NaN \<Rightarrow> False | NegInf \<Rightarrow> False | PosInf \<Rightarrow> True | Finite y \<Rightarrow> x < y))"

definition min_py :: "pyfloat \<Rightarrow> pyfloat \<Rightarrow> pyfloat" where
  "min_py a b = (if float_lt b a then b else a)"

text \<open>
  \<^verbatim>\<open>time.sleep(secs)\<close>, for what it raises: \<^verbatim>\<open>ValueError\<close> on NaN,
  \<^verbatim>\<open>OverflowError\<close> when the length in nanoseconds does not fit a signed 64-bit
  integer, \<^verbatim>\<open>ValueError\<close> on a negative length; \<open>None\<close> when it sleeps and
  returns.
\<close>

definition time_sleep :: "pyfloat \<Rightarrow> error option" where
  "time_sleep secs =
     (case secs of
        NaN \<Rightarrow> Some ValueError
      | PosInf \<Rightarrow> Some OverflowError
      | NegInf \<Rightarrow> Some OverflowError
      | Finite r \<Rightarrow>
          if 2 ^ 63 \<le> \<bar>r\<bar> * 10 ^ 9 then Some OverflowError
          else if r < 0 then Some ValueError
          else None)"

text \<open>The dataclass \<^verbatim>\<open>DeviceInfo\<close>.\<close>

record device_info =
  info_port :: string
  device_id :: int
  serial_number :: string
  name :: string
  firmware_version :: string
  device_type :: string
  axis_count :: int

text \<open>
  What the vendor library hands out for a detected device: \<^verbatim>\<open>device.identity\<close> (absent
  when reading it raises), \<^verbatim>\<open>device.device_id\<close> and \<^verbatim>\<open>device.axis_count\<close>. The two
  fields the source passes through \<^verbatim>\<open>str(...)\<close> are kept as the resulting strings.
\<close>

record identity =
  identity_serial_number :: string
  identity_name :: string
  identity_firmware_version :: string
  identity_device_type :: string

record device =
  dev_device_id :: int
  dev_identity :: "identity option"
  dev_axis_count :: int

subsection \<open>The vendor library as an external party\<close>

text \<open>
  Every call the module makes on \<^verbatim>\<open>Connection\<close>, \<^verbatim>\<open>Device\<close> and \<^verbatim>\<open>Axis\<close> is
  appended to a log. Whether a call raises, and what a query returns, is decided by
  the controller from the calls made before it; nothing else is assumed of it.
\<close>

datatype call =
    OpenSerialPort string
  | DetectDevices string
  | CloseConnection string
  | GetAxis nat
  | AxisIsHomed
  | GetPosition
  | IsBusy
  | Home
  | MoveVelocity real
  | Stop
  | MoveAbsolute real

record controller =
  calls :: "call list"
  raises :: "call list \<Rightarrow> call \<Rightarrow> bool"
  detected :: "call list \<Rightarrow> string \<Rightarrow> device list"
  position_at :: "call list \<Rightarrow> real"
  busy_at :: "call list \<Rightarrow> bool"
  homed_at :: "call list \<Rightarrow> bool"

datatype 'a outcome = Raised controller | Returned 'a controller

definition sdk :: "call \<Rightarrow> 'a \<Rightarrow> controller \<Rightarrow> 'a outcome" where
  "sdk k v c =
     (if raises c (calls c) k then Raised (c\<lparr>calls := calls c @ [k]\<rparr>)
      else Returned v (c\<lparr>calls := calls c @ [k]\<rparr>))"

definition axis_home :: "controller \<Rightarrow> unit outcome" where
  "axis_home c = sdk Home () c"

definition axis_move_velocity :: "real \<Rightarrow> controller \<Rightarrow> unit outcome" where
  "axis_move_velocity v c = sdk (MoveVelocity v) () c"

definition axis_stop :: "controller \<Rightarrow> unit outcome" where
  "axis_stop c = sdk Stop () c"

definition axis_move_absolute :: "real \<Rightarrow> controller \<Rightarrow> unit outcome" where
  "axis_move_absolute p c = sdk (MoveAbsolute p) () c"

definition axis_get_position :: "controller \<Rightarrow> real outcome" where
  "axis_get_position c = sdk GetPosition (position_at c (calls c)) c"

definition axis_is_busy :: "controller \<Rightarrow> bool outcome" where
  "axis_is_busy c = sdk IsBusy (busy_at c (calls c)) c"

definition axis_is_homed :: "controller \<Rightarrow> bool outcome" where
  "axis_is_homed c = sdk AxisIsHomed (homed_at c (calls c)) c"

definition device_get_axis :: "nat \<Rightarrow> controller \<Rightarrow> nat outcome" where
  "device_get_axis n c = sdk (GetAxis n) n c"

text \<open>
  \<^verbatim>\<open>Connection.open_serial_port(port)\<close>; the connection handle is the port it was
  opened on. A missing port name (\<^verbatim>\<open>None\<close>) is refused by the library before any
  port is touched.
\<close>

definition open_serial_port :: "string option \<Rightarrow> controller \<Rightarrow> string outcome" where
  "open_serial_port p c =
     (case p of None \<Rightarrow> Raised c | Some pn \<Rightarrow> sdk (OpenSerialPort pn) pn c)"

definition detect_devices :: "string \<Rightarrow> controller \<Rightarrow> device list outcome" where
  "detect_devices conn c = sdk (DetectDevices conn) (detected c (calls c) conn) c"

definition connection_close :: "string \<Rightarrow> controller \<Rightarrow> unit outcome" where
  "connection_close conn c = sdk (CloseConnection conn) () c"

subsection \<open>The class \<^verbatim>\<open>ZaberStage\<close>\<close>

text \<open>
  The attributes of the object, with the leading underscore of the private ones dropped;
  \<open>connected_flag\<close> is \<^verbatim>\<open>self._connected\<close>. The handles \<^verbatim>\<open>self.connection\<close>,
  \<^verbatim>\<open>self.device\<close> and \<^verbatim>\<open>self.axis\<close> are \<open>None\<close> until \<^verbatim>\<open>connect\<close> assigns them.
\<close>

record zaber_stage =
  port :: "string option"
  min_pos :: real
  max_pos :: real
  max_velocity :: real
  reading_interval :: pyfloat
  config_file :: string
  connection :: "string option"
  device :: "device option"
  axis :: "nat option"
  device_info :: "device_info option"
  connected_flag :: bool
  current_position :: real
  current_velocity :: real
  is_moving :: bool
  is_homed :: bool
  reading_thread :: bool
  stop_reading :: bool

definition DEFAULT_CONFIG_FILE :: string where
  "DEFAULT_CONFIG_FILE = ''zaber_config.json''"

definition get_position :: "zaber_stage \<Rightarrow> real" where
  "get_position s = current_position s"

definition get_distance_from_home :: "zaber_stage \<Rightarrow> real" where
  "get_distance_from_home s = \<bar>get_position s\<bar>"

definition is_connected :: "zaber_stage \<Rightarrow> bool" where
  "is_connected s = connected_flag s"

section \<open>Motion commands\<close>

text \<open>
  Each command returns the boolean the method returns, the object after the call and
  the controller after the call. The \<^verbatim>\<open>except Exception\<close> branch of every command is
  the \<open>Raised\<close> case.
\<close>

definition home :: "zaber_stage \<Rightarrow> controller \<Rightarrow> bool \<times> zaber_stage \<times> controller" where
  "home s c =
     (if \<not> connected_flag s \<or> axis s = None then (False, s, c)
      else case axis_home c of
             Raised c' \<Rightarrow> (False, s, c')
           | Returned u c' \<Rightarrow> (True, s\<lparr>is_homed := True\<rparr>, c'))"

definition set_velocity ::
  "real \<Rightarrow> zaber_stage \<Rightarrow> controller \<Rightarrow> bool \<times> zaber_stage \<times> controller" where
  "set_velocity velocity_mm_s s c =
     (if \<not> connected_flag s \<or> axis s = None \<or> \<not> is_homed s then (False, s, c)
      else
        let velocity = max (- max_velocity s) (min velocity_mm_s (max_velocity s));
            current_pos = get_position s;
            velocity =
              (if current_pos \<le> min_pos s \<and> velocity < 0 then 0
               else if current_pos \<ge> max_pos s \<and> velocity > 0 then 0
               else velocity)
        in case axis_move_velocity velocity c of
             Raised c' \<Rightarrow> (False, s, c')
           | Returned u c' \<Rightarrow> (True, s\<lparr>current_velocity := velocity\<rparr>, c'))"

definition stop :: "zaber_stage \<Rightarrow> controller \<Rightarrow> bool \<times> zaber_stage \<times> controller" where
  "stop s c =
     (if \<not> connected_flag s \<or> axis s = None then (False, s, c)
      else case axis_stop c of
             Raised c' \<Rightarrow> (False, s, c')
           | Returned u c' \<Rightarrow> (True, s\<lparr>current_velocity := 0\<rparr>, c'))"

definition move_to ::
  "real \<Rightarrow> zaber_stage \<Rightarrow> controller \<Rightarrow> bool \<times> zaber_stage \<times> controller" where
  "move_to position_mm s c =
     (if \<not> connected_flag s \<or> axis s = None \<or> \<not> is_homed s then (False, s, c)
      else
        let position = max (min_pos s) (min position_mm (max_pos s))
        in case axis_move_absolute position c of
             Raised c' \<Rightarrow> (False, s, c')
           | Returned u c' \<Rightarrow> (True, s, c'))"

section \<open>The polling loop\<close>

text \<open>
  One pass through the \<^verbatim>\<open>try\<close> block of \<^verbatim>\<open>_read_position_loop\<close>: both reads are made
  before the cache is written, and an exception from either leaves the \<^verbatim>\<open>try\<close>
  block for the handler, which only logs.
\<close>

definition read_position_once :: "zaber_stage \<Rightarrow> controller \<Rightarrow> zaber_stage \<times> controller" where
  "read_position_once s c =
     (case axis s of
        None \<Rightarrow> (s, c)
      | Some a \<Rightarrow>
          (case axis_get_position c of
             Raised c1 \<Rightarrow> (s, c1)
           | Returned position c1 \<Rightarrow>
               (case axis_is_busy c1 of
                  Raised c2 \<Rightarrow> (s, c2)
                | Returned moving c2 \<Rightarrow>
                    (s\<lparr>current_position := position,
                       is_moving := moving,
                       current_velocity := (if \<not> moving then 0 else current_velocity s)\<rparr>,
                     c2))))"

text \<open>
  The loop, for the \<open>n\<close> passes it makes before it finds the stop event set. The
  \<^verbatim>\<open>time.sleep\<close> after the handler is outside the \<^verbatim>\<open>try\<close>: what it raises ends
  the thread.
\<close>

fun read_position_loop ::
  "nat \<Rightarrow> zaber_stage \<Rightarrow> controller \<Rightarrow> error + zaber_stage \<times> controller" where
  "read_position_loop 0 s c = Inr (s, c)"
| "read_position_loop (Suc n) s c =
     (case read_position_once s c of
        (s', c') \<Rightarrow>
          (case time_sleep (reading_interval s') of
             Some e \<Rightarrow> Inl e
           | None \<Rightarrow> read_position_loop n s' c'))"

section \<open>Configuration persistence\<close>

text \<open>
  The JSON record of \<^verbatim>\<open>save_config\<close>, key by key. A key of the top-level object
  may be missing (\<open>None\<close>); \<^verbatim>\<open>"port"\<close> and \<^verbatim>\<open>"device_info"\<close> may also be
  \<^verbatim>\<open>null\<close>, which is what \<^verbatim>\<open>save_config\<close> writes for \<^verbatim>\<open>None\<close>. For
  \<^verbatim>\<open>"device_info"\<close> a missing key and \<^verbatim>\<open>null\<close> are the same to
  \<^verbatim>\<open>config.get("device_info")\<close>. The identity object holds the seven keys of
  \<^verbatim>\<open>DeviceInfo\<close>, each present or not; values of other JSON types and other keys are
  outside the model.
\<close>

record info_json =
  json_port :: "string option"
  json_device_id :: "int option"
  json_serial_number :: "string option"
  json_name :: "string option"
  json_firmware_version :: "string option"
  json_device_type :: "string option"
  json_axis_count :: "int option"

record config_json =
  cfg_port :: "string option option"
  cfg_position_limits_mm :: "real list option"
  cfg_max_velocity_mm_s :: "real option"
  cfg_reading_rate_hz :: "pyfloat option"
  cfg_device_info :: "info_json option"
  cfg_timestamp :: real
  cfg_timestamp_readable :: string

text \<open>A file that exists either parses to such a record or cannot be read as one.\<close>

datatype json_file = Unreadable | Config config_json

record world =
  ctl :: controller
  files :: "string \<Rightarrow> json_file option"
  unwritable :: "string \<Rightarrow> bool"
  platform_system :: string
  time_now :: real
  time_readable :: string

text \<open>\<^verbatim>\<open>DeviceInfo.to_dict\<close>, that is \<^verbatim>\<open>asdict(self)\<close>.\<close>

definition to_dict :: "device_info \<Rightarrow> info_json" where
  "to_dict d =
     \<lparr>json_port = Some (info_port d),
      json_device_id = Some (device_id d),
      json_serial_number = Some (serial_number d),
      json_name = Some (name d),
      json_firmware_version = Some (firmware_version d),
      json_device_type = Some (device_type d),
      json_axis_count = Some (axis_count d)\<rparr>"

text \<open>Truth value of the identity object: a dict is false exactly when it is empty.\<close>

definition dict_truthy :: "info_json \<Rightarrow> bool" where
  "dict_truthy j \<longleftrightarrow>
     json_port j \<noteq> None \<or> json_device_id j \<noteq> None \<or> json_serial_number j \<noteq> None \<or>
     json_name j \<noteq> None \<or> json_firmware_version j \<noteq> None \<or>
     json_device_type j \<noteq> None \<or> json_axis_count j \<noteq> None"

text \<open>
  The call \<^verbatim>\<open>DeviceInfo(port=info["port"], ...)\<close> of \<^verbatim>\<open>load_config\<close>: the seven
  subscripts are evaluated in order and the first missing key raises \<^verbatim>\<open>KeyError\<close>
  (\<open>None\<close> here).
\<close>

definition device_info_from_dict :: "info_json \<Rightarrow> device_info option" where
  "device_info_from_dict j =
     (case json_port j of None \<Rightarrow> None | Some p \<Rightarrow>
     (case json_device_id j of None \<Rightarrow> None | Some i \<Rightarrow>
     (case json_serial_number j of None \<Rightarrow> None | Some sn \<Rightarrow>
     (case json_name j of None \<Rightarrow> None | Some nm \<Rightarrow>
     (case json_firmware_version j of None \<Rightarrow> None | Some fw \<Rightarrow>
     (case json_device_type j of None \<Rightarrow> None | Some dt \<Rightarrow>
     (case json_axis_count j of None \<Rightarrow> None | Some ac \<Rightarrow>
        Some \<lparr>info_port = p, device_id = i, serial_number = sn, name = nm,
              firmware_version = fw, device_type = dt, axis_count = ac\<rparr>)))))))"

text \<open>\<^verbatim>\<open>filename = filename or self.config_file\<close>.\<close>

definition filename_or_config_file :: "string option \<Rightarrow> zaber_stage \<Rightarrow> string" where
  "filename_or_config_file filename s =
     (case filename of
        None \<Rightarrow> config_file s
      | Some f \<Rightarrow> if f = [] then config_file s else f)"

text \<open>
  \<^verbatim>\<open>save_config\<close>. Building the dict divides by \<^verbatim>\<open>self.reading_interval\<close>; that
  \<^verbatim>\<open>ZeroDivisionError\<close> and a failing \<^verbatim>\<open>open(filename, 'w')\<close> both end in the
  handler, which returns \<^verbatim>\<open>False\<close>. \<^verbatim>\<open>json.dump\<close> writes an infinite or NaN rate
  as \<^verbatim>\<open>Infinity\<close> or \<^verbatim>\<open>NaN\<close>, which \<^verbatim>\<open>json.load\<close> reads back.
\<close>

definition save_config :: "string option \<Rightarrow> zaber_stage \<Rightarrow> world \<Rightarrow> bool \<times> world" where
  "save_config filename s w =
     (let fname = filename_or_config_file filename s in
      case one_over (reading_interval s) of
        Inl e \<Rightarrow> (False, w)
      | Inr rate \<Rightarrow>
          let config =
                \<lparr>cfg_port = Some (port s),
                 cfg_position_limits_mm = Some [min_pos s, max_pos s],
                 cfg_max_velocity_mm_s = Some (max_velocity s),
                 cfg_reading_rate_hz = Some rate,
                 cfg_device_info =
                   (case device_info s of None \<Rightarrow> None | Some d \<Rightarrow> Some (to_dict d)),
                 cfg_timestamp = time_now w,
                 cfg_timestamp_readable = time_readable w\<rparr>
          in if unwritable w fname then (False, w)
             else (True, w\<lparr>files := (files w)(fname \<mapsto> Config config)\<rparr>))"

text \<open>
  \<^verbatim>\<open>load_config\<close>. The assignments are made one after the other inside the
  \<^verbatim>\<open>try\<close>, so an exception part-way (\<^verbatim>\<open>IndexError\<close> on a short limits list,
  \<^verbatim>\<open>ZeroDivisionError\<close> on a zero rate, \<^verbatim>\<open>KeyError\<close> on the identity) returns
  \<^verbatim>\<open>False\<close> with the earlier assignments kept.
\<close>

definition load_config :: "string option \<Rightarrow> zaber_stage \<Rightarrow> world \<Rightarrow> bool \<times> zaber_stage" where
  "load_config filename s w =
     (let fname = filename_or_config_file filename s in
      case files w fname of
        None \<Rightarrow> (False, s)
      | Some Unreadable \<Rightarrow> (False, s)
      | Some (Config config) \<Rightarrow>
          let s1 = s\<lparr>port := (case cfg_port config of None \<Rightarrow> Some ''auto'' | Some p \<Rightarrow> p)\<rparr>;
              limits = (case cfg_position_limits_mm config of None \<Rightarrow> [0, 100] | Some l \<Rightarrow> l)
          in if length limits < 2 then (False, s1)
             else
               let s2 = s1\<lparr>min_pos := limits ! 0, max_pos := limits ! 1\<rparr>;
                   s3 = s2\<lparr>max_velocity :=
                            (case cfg_max_velocity_mm_s config of None \<Rightarrow> 10 | Some v \<Rightarrow> v)\<rparr>;
                   reading_rate =
                     (case cfg_reading_rate_hz config of None \<Rightarrow> Finite 100 | Some r \<Rightarrow> r)
               in (case one_over reading_rate of
                     Inl e \<Rightarrow> (False, s3)
                   | Inr interval \<Rightarrow>
                       let s4 = s3\<lparr>reading_interval := interval\<rparr>
                       in (case cfg_device_info config of
                             None \<Rightarrow> (True, s4)
                           | Some info \<Rightarrow>
                               if \<not> dict_truthy info then (True, s4)
                               else (case device_info_from_dict info of
                                       None \<Rightarrow> (False, s4)
                                     | Some d \<Rightarrow> (True, s4\<lparr>device_info := Some d\<rparr>)))))"

text \<open>
  \<^verbatim>\<open>__init__\<close>. The division of line 102 raises on a zero rate before the object
  exists; with \<^verbatim>\<open>port == "auto"\<close> and an existing configuration file the constructor
  ends with \<^verbatim>\<open>self.load_config()\<close>, whose result it ignores.
\<close>

definition init ::
  "string \<Rightarrow> real \<times> real \<Rightarrow> real \<Rightarrow> pyfloat \<Rightarrow> string option \<Rightarrow> world \<Rightarrow>
     error + zaber_stage" where
  "init port0 position_limit_mm max_velocity_mm_s reading_rate_hz config_file0 w =
     (case one_over (min_py reading_rate_hz (Finite 100)) of
        Inl e \<Rightarrow> Inl e
      | Inr interval \<Rightarrow>
        let s = \<lparr>port = Some port0,
                 min_pos = fst position_limit_mm,
                 max_pos = snd position_limit_mm,
                 max_velocity = max_velocity_mm_s,
                 reading_interval = interval,
                 config_file =
                   (case config_file0 of
                      None \<Rightarrow> DEFAULT_CONFIG_FILE
                    | Some f \<Rightarrow> if f = [] then DEFAULT_CONFIG_FILE else f),
                 connection = None, device = None, axis = None, device_info = None,
                 connected_flag = False, current_position = 0, current_velocity = 0,
                 is_moving = False, is_homed = False,
                 reading_thread = False, stop_reading = False\<rparr>
        in if port0 = ''auto'' \<and> files w (config_file s) \<noteq> None
           then Inr (snd (load_config None s w))
           else Inr s)"

section \<open>Discovery and connection\<close>

text \<open>Decimal rendering of the loop index in \<^verbatim>\<open>f"COM{i}"\<close>.\<close>

fun str_nat :: "nat \<Rightarrow> string" where
  "str_nat n =
     (if n < 10 then [char_of (48 + n)]
      else str_nat (n div 10) @ [char_of (48 + n mod 10)])"

definition candidate_ports :: "string \<Rightarrow> string list" where
  "candidate_ports system =
     (if system = ''Windows'' then map (\<lambda>i. ''COM'' @ str_nat i) [1..<20]
      else map (\<lambda>i. ''/dev/ttyUSB'' @ str_nat i) [0..<10] @
           map (\<lambda>i. ''/dev/ttyACM'' @ str_nat i) [0..<10])"

text \<open>
  \<^verbatim>\<open>_get_device_info(device, port)\<close>, with \<^verbatim>\<open>port or self.port\<close> already
  resolved by the caller: \<^verbatim>\<open>scan_devices\<close> passes the non-empty name of the port
  it opened, \<^verbatim>\<open>connect\<close> passes nothing and so gets \<^verbatim>\<open>self.port\<close>, the port it has
  just opened.
\<close>

definition internal_get_device_info :: "device \<Rightarrow> string \<Rightarrow> device_info" where
  "internal_get_device_info d p =
     (case dev_identity d of
        Some i \<Rightarrow>
          \<lparr>info_port = p, device_id = dev_device_id d,
           serial_number = identity_serial_number i, name = identity_name i,
           firmware_version = identity_firmware_version i,
           device_type = identity_device_type i, axis_count = dev_axis_count d\<rparr>
      | None \<Rightarrow>
          \<lparr>info_port = p, device_id = 0, serial_number = ''MOCK'', name = ''Mock Device'',
           firmware_version = ''1.0'', device_type = ''Mock'', axis_count = 1\<rparr>)"

text \<open>
  The \<^verbatim>\<open>for port in ports\<close> loop of \<^verbatim>\<open>scan_devices\<close>: any exception skips to the
  next port; devices found before a failing \<^verbatim>\<open>conn.close()\<close> stay in the list.
\<close>

fun scan_ports ::
  "string list \<Rightarrow> controller \<Rightarrow> device_info list \<Rightarrow> device_info list \<times> controller" where
  "scan_ports [] c discovered_devices = (discovered_devices, c)"
| "scan_ports (p # ps) c discovered_devices =
     (case open_serial_port (Some p) c of
        Raised c1 \<Rightarrow> scan_ports ps c1 discovered_devices
      | Returned conn c1 \<Rightarrow>
          (case detect_devices conn c1 of
             Raised c2 \<Rightarrow> scan_ports ps c2 discovered_devices
           | Returned devices c2 \<Rightarrow>
               (case connection_close conn c2 of
                  Raised c3 \<Rightarrow>
                    scan_ports ps c3
                      (discovered_devices @ map (\<lambda>d. internal_get_device_info d p) devices)
                | Returned u c3 \<Rightarrow>
                    scan_ports ps c3
                      (discovered_devices @ map (\<lambda>d. internal_get_device_info d p) devices))))"

definition scan_devices :: "string \<Rightarrow> controller \<Rightarrow> device_info list \<times> controller" where
  "scan_devices system c = scan_ports (candidate_ports system) c []"

text \<open>The loop of \<^verbatim>\<open>_find_zaber_port\<close>.\<close>

fun find_port :: "string list \<Rightarrow> controller \<Rightarrow> string option \<times> controller" where
  "find_port [] c = (None, c)"
| "find_port (p # ps) c =
     (case open_serial_port (Some p) c of
        Raised c1 \<Rightarrow> find_port ps c1
      | Returned conn c1 \<Rightarrow>
          (case detect_devices conn c1 of
             Raised c2 \<Rightarrow> find_port ps c2
           | Returned devices c2 \<Rightarrow>
               (case connection_close conn c2 of
                  Raised c3 \<Rightarrow> find_port ps c3
                | Returned u c3 \<Rightarrow>
                    if devices \<noteq> [] then (Some p, c3) else find_port ps c3)))"

definition find_zaber_port :: "string \<Rightarrow> controller \<Rightarrow> string option \<times> controller" where
  "find_zaber_port system c = find_port (candidate_ports system) c"

text \<open>
  \<^verbatim>\<open>_start_position_reading\<close>; \<open>reading_thread\<close> says that the thread object
  exists and is alive.
\<close>

definition start_position_reading :: "zaber_stage \<Rightarrow> zaber_stage" where
  "start_position_reading s =
     (if reading_thread s then s
      else s\<lparr>stop_reading := False, reading_thread := True\<rparr>)"

text \<open>
  \<^verbatim>\<open>connect\<close>, in two parts: the resolution of \<^verbatim>\<open>"auto"\<close> (lines 145 to 157) and
  everything from \<^verbatim>\<open>Connection.open_serial_port\<close> on. The method has no test of
  \<^verbatim>\<open>self._connected\<close>. An exception anywhere returns \<^verbatim>\<open>False\<close> and keeps the
  assignments made before it.
\<close>

definition connect_open :: "zaber_stage \<Rightarrow> world \<Rightarrow> bool \<times> zaber_stage \<times> world" where
  "connect_open s w =
     (case open_serial_port (port s) (ctl w) of
        Raised c1 \<Rightarrow> (False, s, w\<lparr>ctl := c1\<rparr>)
      | Returned conn c1 \<Rightarrow>
          let s1 = s\<lparr>connection := Some conn\<rparr> in
          (case detect_devices conn c1 of
             Raised c2 \<Rightarrow> (False, s1, w\<lparr>ctl := c2\<rparr>)
           | Returned devices c2 \<Rightarrow>
               (case devices of
                  [] \<Rightarrow> (False, s1, w\<lparr>ctl := c2\<rparr>)
                | d # ds \<Rightarrow>
                    let s2 = s1\<lparr>device := Some d\<rparr> in
                    (case device_get_axis 1 c2 of
                       Raised c3 \<Rightarrow> (False, s2, w\<lparr>ctl := c3\<rparr>)
                     | Returned a c3 \<Rightarrow>
                         let s3 = s2\<lparr>axis := Some a\<rparr>;
                             s4 = (case device_info s3 of
                                     Some i \<Rightarrow> s3
                                   | None \<Rightarrow>
                                       s3\<lparr>device_info :=
                                            Some (internal_get_device_info d conn)\<rparr>);
                             w4 = (case device_info s3 of
                                     Some i \<Rightarrow> w
                                   | None \<Rightarrow> snd (save_config None s4 w))
                         in (case axis_is_homed c3 of
                               Raised c4 \<Rightarrow> (False, s4, w4\<lparr>ctl := c4\<rparr>)
                             | Returned h c4 \<Rightarrow>
                                 let s5 = s4\<lparr>is_homed := h\<rparr> in
                                 (case axis_get_position c4 of
                                    Raised c5 \<Rightarrow>
                                      (True,
                                       start_position_reading
                                         (s5\<lparr>current_position := 0, connected_flag := True\<rparr>),
                                       w4\<lparr>ctl := c5\<rparr>)
                                  | Returned p c5 \<Rightarrow>
                                      (True,
                                       start_position_reading
                                         (s5\<lparr>current_position := p, connected_flag := True\<rparr>),
                                       w4\<lparr>ctl := c5\<rparr>)))))))"

definition connect :: "zaber_stage \<Rightarrow> world \<Rightarrow> bool \<times> zaber_stage \<times> world" where
  "connect s w =
     (if port s = Some ''auto'' then
        (case scan_devices (platform_system w) (ctl w) of
           (saved_devices, c1) \<Rightarrow>
             (case saved_devices of
                d # ds \<Rightarrow>
                  connect_open (s\<lparr>port := Some (info_port d), device_info := Some d\<rparr>)
                    (w\<lparr>ctl := c1\<rparr>)
              | [] \<Rightarrow>
                  (case find_zaber_port (platform_system w) c1 of
                     (found, c2) \<Rightarrow>
                       (case found of
                          None \<Rightarrow> (False, s\<lparr>port := None\<rparr>, w\<lparr>ctl := c2\<rparr>)
                        | Some p \<Rightarrow>
                            if p = [] then (False, s\<lparr>port := Some p\<rparr>, w\<lparr>ctl := c2\<rparr>)
                            else connect_open (s\<lparr>port := Some p\<rparr>) (w\<lparr>ctl := c2\<rparr>)))))
      else connect_open s w)"

section \<open>Notions of the specification\<close>

text \<open>
  The specification's \<^verbatim>\<open>clamp(x, lo, hi)\<close>, written out by cases so that it can be
  compared with the \<^verbatim>\<open>max(lo, min(x, hi))\<close> of the source.
\<close>

definition spec_clamp :: "real \<Rightarrow> real \<Rightarrow> real \<Rightarrow> real" where
  "spec_clamp x lo hi = (if x < lo then lo else if hi < x then hi else x)"

text \<open>The four cached status fields that \<^verbatim>\<open>get_status\<close> reports agree in two objects.\<close>

definition same_cache :: "zaber_stage \<Rightarrow> zaber_stage \<Rightarrow> bool" where
  "same_cache s s' \<longleftrightarrow>
     current_position s' = current_position s \<and> current_velocity s' = current_velocity s \<and>
     is_moving s' = is_moving s \<and> is_homed s' = is_homed s"

text \<open>
  Between controller states \<open>c\<close> and \<open>c'\<close> exactly one call was made, and the
  controller raised on it.
\<close>

definition rejected :: "controller \<Rightarrow> controller \<Rightarrow> bool" where
  "rejected c c' \<longleftrightarrow>
     length (calls c') = Suc (length (calls c)) \<and>
     take (length (calls c)) (calls c') = calls c \<and>
     raises c (calls c) (last (calls c'))"

section \<open>Example objects\<close>

text \<open>
  A stage connected on \<^verbatim>\<open>COM3\<close> with the limits of the test suite (0 to 100 mm,
  10 mm/s), homed and at 50 mm; its polling period is the double \<^verbatim>\<open>0.01\<close>, that is
  \<open>5764607523034235 / 2\<^sup>5\<^sup>9\<close>. A controller that accepts every call and one that
  raises on every call.
\<close>

definition example_stage :: zaber_stage where
  "example_stage =
     \<lparr>port = Some ''COM3'', min_pos = 0, max_pos = 100, max_velocity = 10,
      reading_interval = Finite (5764607523034235 / 2 ^ 59), config_file = ''zaber_config.json'',
      connection = Some ''COM3'', device = None, axis = Some 1, device_info = None,
      connected_flag = True, current_position = 50, current_velocity = 2,
      is_moving = True, is_homed = True, reading_thread = True, stop_reading = False\<rparr>"

definition example_controller :: controller where
  "example_controller =
     \<lparr>calls = [], raises = (\<lambda>h k. False), detected = (\<lambda>h p. []),
      position_at = (\<lambda>h. 42), busy_at = (\<lambda>h. False), homed_at = (\<lambda>h. True)\<rparr>"

definition refusing_controller :: controller where
  "refusing_controller = example_controller\<lparr>raises := (\<lambda>h k. True)\<rparr>"

text \<open>
  The object \<^verbatim>\<open>ZaberStage()\<close> builds from its defaults when no configuration file
  exists, and a world with the accepting controller and an empty directory.
\<close>

definition fresh_stage :: zaber_stage where
  "fresh_stage =
     \<lparr>port = Some ''auto'', min_pos = 0, max_pos = 100, max_velocity = 10,
      reading_interval = Finite (5764607523034235 / 2 ^ 59), config_file = ''zaber_config.json'',
      connection = None, device = None, axis = None, device_info = None,
      connected_flag = False, current_position = 0, current_velocity = 0,
      is_moving = False, is_homed = False, reading_thread = False, stop_reading = False\<rparr>"

definition example_world :: world where
  "example_world =
     \<lparr>ctl = example_controller, files = (\<lambda>f. None), unwritable = (\<lambda>f. False),
      platform_system = ''Windows'', time_now = 0,
      time_readable = ''2025-11-01 12:00:00''\<rparr>"

text \<open>
  Two configuration files: one that asks for 200 Hz and has no other key that
  \<^verbatim>\<open>load_config\<close> reads, and one whose identity object has the key \<^verbatim>\<open>"port"\<close>
  and none of the other six.
\<close>

definition fast_config :: config_json where
  "fast_config =
     \<lparr>cfg_port = None, cfg_position_limits_mm = None, cfg_max_velocity_mm_s = None,
      cfg_reading_rate_hz = Some (Finite 200), cfg_device_info = None,
      cfg_timestamp = 0, cfg_timestamp_readable = ''2025-11-01 12:00:00''\<rparr>"

definition partial_identity :: info_json where
  "partial_identity =
     \<lparr>json_port = Some ''COM3'', json_device_id = None, json_serial_number = None,
      json_name = None, json_firmware_version = None, json_device_type = None,
      json_axis_count = None\<rparr>"

definition partial_identity_config :: config_json where
  "partial_identity_config =
     \<lparr>cfg_port = Some (Some ''COM3''), cfg_position_limits_mm = Some [0, 50],
      cfg_max_velocity_mm_s = Some 5, cfg_reading_rate_hz = Some (Finite 50),
      cfg_device_info = Some partial_identity,
      cfg_timestamp = 0, cfg_timestamp_readable = ''2025-11-01 12:00:00''\<rparr>"

definition world_with :: "config_json \<Rightarrow> world" where
  "world_with cfg =
     example_world\<lparr>files := (\<lambda>f. if f = ''zaber_config.json'' then Some (Config cfg) else None)\<rparr>"

text \<open>A controller that accepts every call and reports one device on every port.\<close>

definition example_device :: device where
  "example_device =
     \<lparr>dev_device_id = 1,
      dev_identity = Some \<lparr>identity_serial_number = ''12345'', identity_name = ''X-LSM100A'',
                           identity_firmware_version = ''7.33'',
                           identity_device_type = ''Linear''\<rparr>,
      dev_axis_count = 1\<rparr>"

definition device_controller :: controller where
  "device_controller = example_controller\<lparr>detected := (\<lambda>h p. [example_device])\<rparr>"

text \<open>
  What the specification asks of a persisted identity object: it is there (a non-empty
  object) and one of the seven fields of \<^verbatim>\<open>DeviceInfo\<close> is not.
\<close>

definition missing_required_field :: "info_json \<Rightarrow> bool" where
  "missing_required_field j \<longleftrightarrow>
     json_port j = None \<or> json_device_id j = None \<or> json_serial_number j = None \<or>
     json_name j = None \<or> json_firmware_version j = None \<or>
     json_device_type j = None \<or> json_axis_count j = None"

text \<open>
  The settings a configuration record carries, apart from the identity: the record can
  be loaded when its limits list has two entries and its rate is not zero, and an
  object holds the record's settings when its port, limits and maximum velocity are
  those of the record and its polling period is \<^verbatim>\<open>1.0 / rate\<close> for the record's
  rate, with the defaults of \<^verbatim>\<open>load_config\<close> for missing keys.
\<close>

definition settings_loadable :: "config_json \<Rightarrow> bool" where
  "settings_loadable cfg \<longleftrightarrow>
     (case cfg_position_limits_mm cfg of None \<Rightarrow> True | Some l \<Rightarrow> 2 \<le> length l) \<and>
     (case cfg_reading_rate_hz cfg of None \<Rightarrow> True | Some r \<Rightarrow> r \<noteq> Finite 0)"

definition settings_loaded :: "config_json \<Rightarrow> zaber_stage \<Rightarrow> bool" where
  "settings_loaded cfg s' \<longleftrightarrow>
     port s' = (case cfg_port cfg of None \<Rightarrow> Some ''auto'' | Some p \<Rightarrow> p) \<and>
     min_pos s' = (case cfg_position_limits_mm cfg of None \<Rightarrow> 0 | Some l \<Rightarrow> l ! 0) \<and>
     max_pos s' = (case cfg_position_limits_mm cfg of None \<Rightarrow> 100 | Some l \<Rightarrow> l ! 1) \<and>
     max_velocity s' = (case cfg_max_velocity_mm_s cfg of None \<Rightarrow> 10 | Some v \<Rightarrow> v) \<and>
     Inr (reading_interval s') =
       one_over (case cfg_reading_rate_hz cfg of None \<Rightarrow> Finite 100 | Some r \<Rightarrow> r)"

text \<open>
  The object \<^verbatim>\<open>ZaberStage(port="COM3", reading_rate_hz=2.0**-1030)\<close> builds: the
  rate is a subnormal double, and its reciprocal is beyond the largest double.
\<close>

definition slow_stage :: zaber_stage where
  "slow_stage =
     \<lparr>port = Some ''COM3'', min_pos = 0, max_pos = 100, max_velocity = 10,
      reading_interval = PosInf, config_file = ''zaber_config.json'',
      connection = None, device = None, axis = None, device_info = None,
      connected_flag = False, current_position = 0, current_velocity = 0,
      is_moving = False, is_homed = False, reading_thread = False, stop_reading = False\<rparr>"

section \<open>Rounding to a double\<close>

text \<open>
  The rounding is within half a unit in the last place: in the normal range the
  relative error is at most \<open>2\<^sup>-\<^sup>5\<^sup>3\<close>. A quotient in the range of doubles stays finite,
  one above \<open>2\<^sup>1\<^sup>0\<^sup>2\<^sup>4\<close> becomes infinite. Rounding a reciprocal twice brings a rate
  back to within \<open>2\<^sup>-\<^sup>5\<^sup>1\<close> of itself, relatively.
\<close>

lemma round_half_even_error: "\<bar>of_int (round_half_even y) - y\<bar> \<le> 1 / 2"
proof -
  have "of_int \<lfloor>y\<rfloor> \<le> y" "y < of_int \<lfloor>y\<rfloor> + 1" by linarith+
  then show ?thesis
    by (auto simp: round_half_even_def Let_def)
qed


lemma ulp_exponent_normal:
  assumes "1 / 2 ^ 1022 \<le> \<bar>x\<bar>"
  shows "ulp_exponent x = \<lfloor>log 2 \<bar>x\<bar>\<rfloor> - 52"
    and "2 powr of_int \<lfloor>log 2 \<bar>x\<bar>\<rfloor> \<le> \<bar>x\<bar>"
proof -
  have xpos: "0 < \<bar>x\<bar>"
  proof -
    have "(0::real) < 1 / 2 ^ 1022" by simp
    then show ?thesis using assms by linarith
  qed
  define k where "k = \<lfloor>log 2 \<bar>x\<bar>\<rfloor>"
  have kb: "2 powr of_int k \<le> \<bar>x\<bar>" "\<bar>x\<bar> < 2 powr of_int (k + 1)"
    using floor_log_eq_powr_iff [of "\<bar>x\<bar>" 2 k] xpos k_def by simp_all
  have "(2::real) powr of_int (- 1022) = 1 / 2 ^ 1022"
    by (simp add: powr_minus_divide)
  then have low: "2 powr of_int (- 1022) \<le> \<bar>x\<bar>"
    using assms by simp
  have "(2::real) powr of_int (- 1022) < 2 powr of_int (k + 1)"
    using low kb(2) by linarith
  then have "- 1022 < k + 1" by simp
  then have "max (k - 52) (- 1074) = k - 52" by simp
  then show "ulp_exponent x = \<lfloor>log 2 \<bar>x\<bar>\<rfloor> - 52"
    unfolding ulp_exponent_def k_def .
  show "2 powr of_int \<lfloor>log 2 \<bar>x\<bar>\<rfloor> \<le> \<bar>x\<bar>"
    using kb(1) k_def by simp
qed

lemma round_double_error:
  assumes "1 / 2 ^ 1022 \<le> \<bar>x\<bar>"
  shows "\<bar>round_double x - x\<bar> \<le> \<bar>x\<bar> / 2 ^ 53"
proof -
  define k where "k = \<lfloor>log 2 \<bar>x\<bar>\<rfloor>"
  define u :: real where "u = 2 powr of_int (k - 52)"
  have x0: "x \<noteq> 0"
  proof
    assume "x = 0"
    then have "(1::real) / 2 ^ 1022 \<le> 0" using assms by simp
    then show False by simp
  qed
  have e: "ulp_exponent x = k - 52" and kb: "2 powr of_int k \<le> \<bar>x\<bar>"
    using ulp_exponent_normal [OF assms] k_def by simp_all
  have upos: "0 < u" by (simp add: u_def)
  have "u = 2 powr of_int k / 2 powr 52"
    by (simp add: u_def powr_diff)
  also have "(2::real) powr 52 = 2 ^ 52"
    using powr_realpow [of 2 52] by simp
  finally have u52: "u = 2 powr of_int k / 2 ^ 52" .
  have ule: "u \<le> \<bar>x\<bar> / 2 ^ 52"
    using kb by (simp add: u52 divide_right_mono)
  have rd: "round_double x = of_int (round_half_even (x / u)) * u"
    using x0 e by (simp add: round_double_def u_def)
  have "round_double x - x = (of_int (round_half_even (x / u)) - x / u) * u"
    using upos by (simp add: rd field_simps)
  then have "\<bar>round_double x - x\<bar> = \<bar>of_int (round_half_even (x / u)) - x / u\<bar> * u"
    using upos by (simp add: abs_mult)
  also have "\<dots> \<le> (1 / 2) * u"
    using round_half_even_error [of "x / u"] upos by (intro mult_right_mono) simp_all
  also have "\<dots> \<le> (1 / 2) * (\<bar>x\<bar> / 2 ^ 52)"
    using ule by simp
  also have "\<dots> = \<bar>x\<bar> / 2 ^ 53" by simp
  finally show ?thesis .
qed

lemma round_double_bounds:
  assumes "1 / 2 ^ 1022 \<le> \<bar>x\<bar>"
  shows "(1 - 1 / 2 ^ 53) * \<bar>x\<bar> \<le> \<bar>round_double x\<bar>"
    and "\<bar>round_double x\<bar> \<le> (1 + 1 / 2 ^ 53) * \<bar>x\<bar>"
proof -
  have e: "\<bar>round_double x - x\<bar> \<le> \<bar>x\<bar> / 2 ^ 53"
    by (rule round_double_error [OF assms])
  have "\<bar>x\<bar> - \<bar>x\<bar> / 2 ^ 53 \<le> \<bar>round_double x\<bar>"
    using e by linarith
  then show "(1 - 1 / 2 ^ 53) * \<bar>x\<bar> \<le> \<bar>round_double x\<bar>"
    by (simp add: algebra_simps)
  have "\<bar>round_double x\<bar> \<le> \<bar>x\<bar> + \<bar>x\<bar> / 2 ^ 53"
    using e by linarith
  then show "\<bar>round_double x\<bar> \<le> (1 + 1 / 2 ^ 53) * \<bar>x\<bar>"
    by (simp add: algebra_simps)
qed

lemma round_double_pos:
  assumes "1 / 2 ^ 1022 \<le> x"
  shows "0 < round_double x"
proof -
  have x: "0 < x"
  proof -
    have "(0::real) < 1 / 2 ^ 1022" by simp
    then show ?thesis using assms by linarith
  qed
  have "\<bar>round_double x - x\<bar> \<le> x / 2 ^ 53"
    using round_double_error [of x] assms x by simp
  moreover have "x / 2 ^ 53 < x" using x by simp
  ultimately show ?thesis by linarith
qed


lemma to_double_in_range:
  assumes "1 / 2 ^ 1022 \<le> \<bar>x\<bar>" and "\<bar>x\<bar> \<le> 2 ^ 1023"
  shows "to_double x = Finite (round_double x)"
proof -
  have "\<bar>round_double x\<bar> \<le> (1 + 1 / 2 ^ 53) * \<bar>x\<bar>"
    by (rule round_double_bounds(2) [OF assms(1)])
  also have "\<dots> \<le> (1 + 1 / 2 ^ 53) * 2 ^ 1023"
    using assms(2) by (intro mult_left_mono) simp_all
  also have "\<dots> \<le> FLOAT_MAX"
    by (simp add: FLOAT_MAX_def)
  finally have "\<bar>round_double x\<bar> \<le> FLOAT_MAX" .
  then show ?thesis
    by (auto simp: to_double_def Let_def)
qed

lemma to_double_overflow:
  assumes "2 ^ 1024 < x"
  shows "to_double x = PosInf"
proof -
  have x: "1 / 2 ^ 1022 \<le> \<bar>x\<bar>"
  proof -
    have "(1::real) / 2 ^ 1022 \<le> 2 ^ 1024" by simp
    then show ?thesis using assms by linarith
  qed
  have "FLOAT_MAX = (1 - 1 / 2 ^ 53) * 2 ^ 1024"
    by (simp add: FLOAT_MAX_def)
  also have "\<dots> < (1 - 1 / 2 ^ 53) * \<bar>x\<bar>"
    using assms by (intro mult_strict_left_mono) simp_all
  also have "\<dots> \<le> \<bar>round_double x\<bar>"
    by (rule round_double_bounds(1) [OF x])
  finally have "FLOAT_MAX < \<bar>round_double x\<bar>" .
  moreover have "0 < round_double x"
  proof (rule round_double_pos)
    have "(1::real) / 2 ^ 1022 \<le> 2 ^ 1024" by simp
    then show "1 / 2 ^ 1022 \<le> x" using assms by linarith
  qed
  ultimately show ?thesis
    by (simp add: to_double_def Let_def)
qed


lemma round_double_binade:
  assumes "2 ^ 52 / 2 ^ m \<le> \<bar>x\<bar>" and "\<bar>x\<bar> < 2 ^ 53 / 2 ^ m" and "m \<le> 1074"
  shows "round_double x = of_int (round_half_even (x * 2 ^ m)) / 2 ^ m"
proof -
  have xpos: "0 < \<bar>x\<bar>"
  proof -
    have "(0::real) < 2 ^ 52 / 2 ^ m" by simp
    then show ?thesis using assms(1) by linarith
  qed
  then have x0: "x \<noteq> 0" by auto
  have p: "(2::real) powr of_int (52 - int m) = 2 ^ 52 / 2 ^ m"
    "(2::real) powr of_int (52 - int m + 1) = 2 ^ 53 / 2 ^ m"
    by (simp_all add: powr_diff powr_add powr_realpow flip: powr_numeral)
  have "\<lfloor>log 2 \<bar>x\<bar>\<rfloor> = 52 - int m"
    using floor_log_eq_powr_iff [of "\<bar>x\<bar>" 2 "52 - int m"] xpos assms(1,2) p by simp
  then have e: "ulp_exponent x = - int m"
    using assms(3) by (simp add: ulp_exponent_def)
  have u: "(2::real) powr (- real m) = 1 / 2 ^ m"
    by (simp add: powr_minus_divide powr_realpow)
  show ?thesis
    using x0 by (simp add: round_double_def e u)
qed

lemma round_double_200: "round_double (1 / 200) = 5764607523034235 / 2 ^ 60"
proof -
  have "round_double (1 / 200) = of_int (round_half_even ((1 / 200) * 2 ^ 60)) / 2 ^ 60"
    by (rule round_double_binade) simp_all
  also have "round_half_even ((1 / 200) * 2 ^ 60) = 5764607523034235"
    by (simp add: round_half_even_def Let_def)
  finally show ?thesis by simp
qed

lemma round_double_100: "round_double (1 / 100) = 5764607523034235 / 2 ^ 59"
proof -
  have "round_double (1 / 100) = of_int (round_half_even ((1 / 100) * 2 ^ 59)) / 2 ^ 59"
    by (rule round_double_binade) simp_all
  also have "round_half_even ((1 / 100) * 2 ^ 59) = 5764607523034235"
    by (simp add: round_half_even_def Let_def)
  finally show ?thesis by simp
qed


lemma round_double_range:
  assumes "1 / 2 ^ n \<le> \<bar>x\<bar>" and "\<bar>x\<bar> \<le> 2 ^ n" and "n \<le> 1022"
  shows "1 / 2 ^ Suc n \<le> \<bar>round_double x\<bar>" and "\<bar>round_double x\<bar> \<le> 2 ^ Suc n"
proof -
  have "(2::real) ^ n \<le> 2 ^ 1022"
    using assms(3) by (intro power_increasing) simp_all
  then have "(1::real) / 2 ^ 1022 \<le> 1 / 2 ^ n"
    by (simp add: field_simps)
  then have x: "1 / 2 ^ 1022 \<le> \<bar>x\<bar>" using assms(1) by linarith
  have "(1::real) / 2 ^ Suc n = (1 / 2) * (1 / 2 ^ n)" by simp
  also have "\<dots> \<le> (1 - 1 / 2 ^ 53) * (1 / 2 ^ n)"
    by (intro mult_right_mono) simp_all
  also have "\<dots> \<le> (1 - 1 / 2 ^ 53) * \<bar>x\<bar>"
    using assms(1) by (intro mult_left_mono) simp_all
  also have "\<dots> \<le> \<bar>round_double x\<bar>"
    by (rule round_double_bounds(1) [OF x])
  finally show "1 / 2 ^ Suc n \<le> \<bar>round_double x\<bar>" .
  have "\<bar>round_double x\<bar> \<le> (1 + 1 / 2 ^ 53) * \<bar>x\<bar>"
    by (rule round_double_bounds(2) [OF x])
  also have "\<dots> \<le> 2 * \<bar>x\<bar>"
    by (intro mult_right_mono) simp_all
  also have "\<dots> \<le> 2 * 2 ^ n"
    using assms(2) by simp
  finally show "\<bar>round_double x\<bar> \<le> 2 ^ Suc n" by simp
qed

lemma reciprocal_range:
  fixes x :: real
  assumes "1 / 2 ^ n \<le> \<bar>x\<bar>" and "\<bar>x\<bar> \<le> 2 ^ n"
  shows "1 / 2 ^ n \<le> \<bar>1 / x\<bar>" and "\<bar>1 / x\<bar> \<le> 2 ^ n"
proof -
  have pos: "0 < \<bar>x\<bar>"
  proof -
    have "(0::real) < 1 / 2 ^ n" by simp
    then show ?thesis using assms(1) by linarith
  qed
  have "1 / 2 ^ n \<le> 1 / \<bar>x\<bar>"
    using assms(2) pos by (simp add: field_simps)
  then show "1 / 2 ^ n \<le> \<bar>1 / x\<bar>" by simp
  have "1 / \<bar>x\<bar> \<le> 2 ^ n"
    using assms(1) pos by (simp add: field_simps)
  then show "\<bar>1 / x\<bar> \<le> 2 ^ n" by simp
qed

lemma reciprocal_twice_error:
  assumes "1 / 2 ^ 1000 \<le> \<bar>r\<bar>" and "\<bar>r\<bar> \<le> 2 ^ 1000"
  shows "\<bar>round_double (1 / round_double (1 / r)) - r\<bar> \<le> \<bar>r\<bar> / 2 ^ 51"
proof -
  define a where "a = 1 / r"
  define p where "p = round_double a"
  define b where "b = 1 / p"
  have rpos: "0 < \<bar>r\<bar>"
  proof -
    have "(0::real) < 1 / 2 ^ 1000" by simp
    then show ?thesis using assms(1) by linarith
  qed
  have a_rng: "1 / 2 ^ 1000 \<le> \<bar>a\<bar>" "\<bar>a\<bar> \<le> 2 ^ 1000"
    using reciprocal_range [OF assms] by (simp_all add: a_def)
  have a_norm: "1 / 2 ^ 1022 \<le> \<bar>a\<bar>"
  proof -
    have "(1::real) / 2 ^ 1022 \<le> 1 / 2 ^ 1000" by simp
    then show ?thesis using a_rng(1) by linarith
  qed
  have apos: "0 < \<bar>a\<bar>" using rpos by (simp add: a_def)
  have p_rng: "1 / 2 ^ Suc 1000 \<le> \<bar>p\<bar>" "\<bar>p\<bar> \<le> 2 ^ Suc 1000"
    using round_double_range [OF a_rng] by (simp_all add: p_def)
  have ppos: "0 < \<bar>p\<bar>"
  proof -
    have "(0::real) < 1 / 2 ^ Suc 1000" by simp
    then show ?thesis using p_rng(1) by linarith
  qed
  have b_rng: "1 / 2 ^ Suc 1000 \<le> \<bar>b\<bar>" "\<bar>b\<bar> \<le> 2 ^ Suc 1000"
    using reciprocal_range [OF p_rng] by (simp_all add: b_def)
  have b_norm: "1 / 2 ^ 1022 \<le> \<bar>b\<bar>"
  proof -
    have "(1::real) / 2 ^ 1022 \<le> 1 / 2 ^ Suc 1000" by simp
    then show ?thesis using b_rng(1) by linarith
  qed
  have e1: "\<bar>p - a\<bar> \<le> \<bar>a\<bar> / 2 ^ 53"
    using round_double_error [OF a_norm] by (simp add: p_def)
  have e2: "\<bar>round_double b - b\<bar> \<le> \<bar>b\<bar> / 2 ^ 53"
    by (rule round_double_error [OF b_norm])
  have babs: "\<bar>b\<bar> = 1 / \<bar>p\<bar>" by (simp add: b_def abs_divide)
  have br: "b - r = (a - p) / (p * a)"
    using ppos apos by (simp add: b_def a_def field_simps)
  have "\<bar>b - r\<bar> = \<bar>p - a\<bar> / (\<bar>p\<bar> * \<bar>a\<bar>)"
    by (simp add: br abs_divide abs_mult abs_minus_commute)
  also have "\<dots> \<le> (\<bar>a\<bar> / 2 ^ 53) / (\<bar>p\<bar> * \<bar>a\<bar>)"
    using e1 ppos apos by (intro divide_right_mono) simp_all
  also have "\<dots> = \<bar>b\<bar> / 2 ^ 53"
    using apos ppos by (simp add: babs)
  finally have e3: "\<bar>b - r\<bar> \<le> \<bar>b\<bar> / 2 ^ 53" .
  have "(1 / 2) * \<bar>a\<bar> \<le> (1 - 1 / 2 ^ 53) * \<bar>a\<bar>"
    by (intro mult_right_mono) simp_all
  also have "\<dots> \<le> \<bar>p\<bar>"
    using round_double_bounds(1) [OF a_norm] by (simp add: p_def)
  finally have "\<bar>a\<bar> \<le> 2 * \<bar>p\<bar>" by simp
  then have "1 / \<bar>p\<bar> \<le> 2 / \<bar>a\<bar>"
    using ppos apos by (simp add: field_simps)
  also have "2 / \<bar>a\<bar> = 2 * \<bar>r\<bar>"
    by (simp add: a_def abs_divide)
  finally have b2: "\<bar>b\<bar> \<le> 2 * \<bar>r\<bar>" by (simp add: babs)
  have "\<bar>round_double b - r\<bar> \<le> \<bar>round_double b - b\<bar> + \<bar>b - r\<bar>" by linarith
  also have "\<dots> \<le> \<bar>b\<bar> / 2 ^ 53 + \<bar>b\<bar> / 2 ^ 53"
    using e2 e3 by linarith
  also have "\<dots> = \<bar>b\<bar> / 2 ^ 52" by simp
  also have "\<dots> \<le> (2 * \<bar>r\<bar>) / 2 ^ 52"
    using b2 by (intro divide_right_mono) simp_all
  also have "\<dots> = \<bar>r\<bar> / 2 ^ 51" by simp
  finally show ?thesis by (simp add: b_def p_def a_def)
qed

lemma rate_tolerance:
  assumes "\<bar>r\<bar> \<le> 10 ^ 9"
  shows "\<bar>r\<bar> / 2 ^ 51 \<le> (1::real) / 10 ^ 6"
proof -
  have "\<bar>r\<bar> / 2 ^ 51 \<le> 10 ^ 9 / 2 ^ 51"
    using assms by (intro divide_right_mono) simp_all
  also have "\<dots> \<le> (1::real) / 10 ^ 6" by simp
  finally show ?thesis .
qed

section \<open>Velocity and position commands\<close>

text \<open>
  Claim C1. On a connected and homed stage whose maximum velocity is not negative,
  \<^verbatim>\<open>set_velocity(v)\<close> makes exactly one call on the controller,
  \<^verbatim>\<open>move_velocity(w)\<close>, where \<open>w\<close> is \<open>v\<close> clamped to the velocity range, replaced
  by zero when the cached position is at or above the maximum limit and the clamped
  value is positive, or at or below the minimum limit and the clamped value is
  negative. When \<open>v\<close> is outside the range, no call with \<open>v\<close> itself is made.
\<close>

theorem set_velocity_sends_clamped:
  assumes "connected_flag s" and "axis s = Some a" and "is_homed s"
    and "0 \<le> max_velocity s"
  shows "calls (snd (snd (set_velocity v s c))) =
           calls c @ [MoveVelocity
             (if max_pos s \<le> current_position s \<and>
                 0 < spec_clamp v (- max_velocity s) (max_velocity s) then 0
              else if current_position s \<le> min_pos s \<and>
                      spec_clamp v (- max_velocity s) (max_velocity s) < 0 then 0
              else spec_clamp v (- max_velocity s) (max_velocity s))]
         \<and> (v < - max_velocity s \<or> max_velocity s < v \<longrightarrow>
              MoveVelocity v \<notin>
                set (drop (length (calls c)) (calls (snd (snd (set_velocity v s c))))))"
  using assms
  by (auto simp: set_velocity_def axis_move_velocity_def sdk_def spec_clamp_def
        get_position_def Let_def max_def min_def)

theorem set_velocity_sends_clamped_witness:
  "connected_flag example_stage \<and> axis example_stage = Some 1 \<and> is_homed example_stage \<and>
   0 \<le> max_velocity example_stage \<and>
   calls (snd (snd (set_velocity 15 example_stage example_controller))) = [MoveVelocity 10] \<and>
   MoveVelocity 15 \<notin> set (calls (snd (snd (set_velocity 15 example_stage example_controller))))"
  using set_velocity_sends_clamped [of example_stage 1 15 example_controller]
  by (simp add: example_stage_def example_controller_def spec_clamp_def)

text \<open>
  Claim C2. On a connected and homed stage with \<open>min_pos \<le> max_pos\<close>,
  \<^verbatim>\<open>move_to(t)\<close> makes exactly one call on the controller, the absolute move to \<open>t\<close>
  clamped into the limits, whatever the sign or size of \<open>t\<close>. The witness is the
  scenario of the specification: limits (0, 100) and target 150 give 100.
\<close>

theorem move_to_sends_clamped:
  assumes "connected_flag s" and "axis s = Some a" and "is_homed s"
    and "min_pos s \<le> max_pos s"
  shows "calls (snd (snd (move_to t s c))) =
           calls c @ [MoveAbsolute (spec_clamp t (min_pos s) (max_pos s))]"
  using assms
  by (auto simp: move_to_def axis_move_absolute_def sdk_def spec_clamp_def Let_def
        max_def min_def)

theorem move_to_sends_clamped_witness:
  "connected_flag example_stage \<and> axis example_stage = Some 1 \<and> is_homed example_stage \<and>
   min_pos example_stage \<le> max_pos example_stage \<and>
   calls (snd (snd (move_to 150 example_stage example_controller))) = [MoveAbsolute 100]"
  using move_to_sends_clamped [of example_stage 1 150 example_controller]
  by (simp add: example_stage_def example_controller_def spec_clamp_def)

text \<open>
  Claim C3. On a connected stage that is not homed, \<^verbatim>\<open>set_velocity\<close> and
  \<^verbatim>\<open>move_to\<close> return \<^verbatim>\<open>False\<close> and leave object and controller as they were (no
  call is made). \<^verbatim>\<open>stop\<close> does not look at the homed flag: on a connected stage it
  returns \<^verbatim>\<open>True\<close> whenever the controller accepts the stop call.
\<close>

theorem unhomed_refused_stop_allowed:
  assumes "connected_flag s" and "axis s = Some a"
  shows "(\<not> is_homed s \<longrightarrow>
            set_velocity v s c = (False, s, c) \<and> move_to t s c = (False, s, c)) \<and>
         (\<not> raises c (calls c) Stop \<longrightarrow> fst (stop s c))"
  using assms
  by (simp add: set_velocity_def move_to_def stop_def axis_stop_def sdk_def)

theorem unhomed_refused_stop_allowed_witness:
  "connected_flag (example_stage\<lparr>is_homed := False\<rparr>) \<and>
   axis (example_stage\<lparr>is_homed := False\<rparr>) = Some 1 \<and>
   \<not> is_homed (example_stage\<lparr>is_homed := False\<rparr>) \<and>
   \<not> raises example_controller (calls example_controller) Stop \<and>
   set_velocity 5 (example_stage\<lparr>is_homed := False\<rparr>) example_controller =
     (False, example_stage\<lparr>is_homed := False\<rparr>, example_controller) \<and>
   move_to 20 (example_stage\<lparr>is_homed := False\<rparr>) example_controller =
     (False, example_stage\<lparr>is_homed := False\<rparr>, example_controller) \<and>
   fst (stop (example_stage\<lparr>is_homed := False\<rparr>) example_controller)"
  using unhomed_refused_stop_allowed
          [of "example_stage\<lparr>is_homed := False\<rparr>" 1 5 example_controller 20]
  by (simp add: example_stage_def example_controller_def)

section \<open>Rejected commands\<close>

lemma home_rejected:
  "rejected c (snd (snd (home s c))) \<longrightarrow>
     \<not> fst (home s c) \<and> same_cache s (fst (snd (home s c)))"
  by (simp add: home_def axis_home_def sdk_def rejected_def same_cache_def)

lemma set_velocity_rejected:
  "rejected c (snd (snd (set_velocity v s c))) \<longrightarrow>
     \<not> fst (set_velocity v s c) \<and> same_cache s (fst (snd (set_velocity v s c)))"
  by (simp add: set_velocity_def axis_move_velocity_def sdk_def rejected_def same_cache_def
        Let_def)

lemma move_to_rejected:
  "rejected c (snd (snd (move_to t s c))) \<longrightarrow>
     \<not> fst (move_to t s c) \<and> same_cache s (fst (snd (move_to t s c)))"
  by (simp add: move_to_def axis_move_absolute_def sdk_def rejected_def same_cache_def Let_def)

lemma stop_rejected:
  "rejected c (snd (snd (stop s c))) \<longrightarrow>
     \<not> fst (stop s c) \<and> same_cache s (fst (snd (stop s c)))"
  by (simp add: stop_def axis_stop_def sdk_def rejected_def same_cache_def)

text \<open>
  Claim C6. For each of \<^verbatim>\<open>home\<close>, \<^verbatim>\<open>set_velocity\<close>, \<^verbatim>\<open>move_to\<close> and
  \<^verbatim>\<open>stop\<close>: if the call it made on the controller raised, the method returns
  \<^verbatim>\<open>False\<close> and the cached position, velocity, moving flag and homed flag are what
  they were before the call.
\<close>

theorem rejected_command_keeps_cache:
  "(rejected c (snd (snd (home s c))) \<longrightarrow>
      \<not> fst (home s c) \<and> same_cache s (fst (snd (home s c)))) \<and>
   (rejected c (snd (snd (set_velocity v s c))) \<longrightarrow>
      \<not> fst (set_velocity v s c) \<and> same_cache s (fst (snd (set_velocity v s c)))) \<and>
   (rejected c (snd (snd (move_to t s c))) \<longrightarrow>
      \<not> fst (move_to t s c) \<and> same_cache s (fst (snd (move_to t s c)))) \<and>
   (rejected c (snd (snd (stop s c))) \<longrightarrow>
      \<not> fst (stop s c) \<and> same_cache s (fst (snd (stop s c))))"
  using home_rejected [of c s] set_velocity_rejected [of c v s] move_to_rejected [of c t s]
    stop_rejected [of c s]
  by blast

theorem rejected_command_keeps_cache_witness:
  "rejected refusing_controller (snd (snd (home example_stage refusing_controller))) \<and>
   rejected refusing_controller (snd (snd (set_velocity 5 example_stage refusing_controller))) \<and>
   rejected refusing_controller (snd (snd (move_to 20 example_stage refusing_controller))) \<and>
   rejected refusing_controller (snd (snd (stop example_stage refusing_controller))) \<and>
   \<not> fst (home example_stage refusing_controller) \<and>
   \<not> fst (set_velocity 5 example_stage refusing_controller) \<and>
   \<not> fst (move_to 20 example_stage refusing_controller) \<and>
   \<not> fst (stop example_stage refusing_controller) \<and>
   same_cache example_stage (fst (snd (home example_stage refusing_controller))) \<and>
   same_cache example_stage (fst (snd (set_velocity 5 example_stage refusing_controller))) \<and>
   same_cache example_stage (fst (snd (move_to 20 example_stage refusing_controller))) \<and>
   same_cache example_stage (fst (snd (stop example_stage refusing_controller)))"
proof -
  have h: "rejected refusing_controller (snd (snd (home example_stage refusing_controller)))"
    by (simp add: example_stage_def refusing_controller_def example_controller_def
        home_def axis_home_def sdk_def rejected_def)
  have v: "rejected refusing_controller
             (snd (snd (set_velocity 5 example_stage refusing_controller)))"
    by (simp add: example_stage_def refusing_controller_def example_controller_def
        set_velocity_def axis_move_velocity_def sdk_def rejected_def get_position_def)
  have m: "rejected refusing_controller
             (snd (snd (move_to 20 example_stage refusing_controller)))"
    by (simp add: example_stage_def refusing_controller_def example_controller_def
        move_to_def axis_move_absolute_def sdk_def rejected_def)
  have p: "rejected refusing_controller (snd (snd (stop example_stage refusing_controller)))"
    by (simp add: example_stage_def refusing_controller_def example_controller_def
        stop_def axis_stop_def sdk_def rejected_def)
  show ?thesis
    using h v m p rejected_command_keeps_cache [of refusing_controller example_stage 5 20]
    by blast
qed

text \<open>
  Claim C10. \<^verbatim>\<open>move_to\<close> changes no cached status field, whether it returns
  \<^verbatim>\<open>True\<close> or \<^verbatim>\<open>False\<close>: the object after the call is the object before it.
\<close>

theorem move_to_keeps_cache:
  "same_cache s (fst (snd (move_to t s c))) \<and> fst (snd (move_to t s c)) = s"
  by (simp add: move_to_def axis_move_absolute_def sdk_def same_cache_def Let_def)

theorem move_to_keeps_cache_witness:
  "fst (move_to 20 example_stage example_controller) \<and>
   same_cache example_stage (fst (snd (move_to 20 example_stage example_controller))) \<and>
   fst (snd (move_to 20 example_stage example_controller)) = example_stage \<and>
   \<not> fst (move_to 20 example_stage refusing_controller) \<and>
   same_cache example_stage (fst (snd (move_to 20 example_stage refusing_controller))) \<and>
   fst (snd (move_to 20 example_stage refusing_controller)) = example_stage"
proof -
  have ok: "fst (move_to 20 example_stage example_controller)"
    by (simp add: example_stage_def example_controller_def move_to_def
        axis_move_absolute_def sdk_def)
  have no: "\<not> fst (move_to 20 example_stage refusing_controller)"
    by (simp add: example_stage_def refusing_controller_def example_controller_def
        move_to_def axis_move_absolute_def sdk_def)
  show ?thesis
    using ok no move_to_keeps_cache [of example_stage 20 example_controller]
      move_to_keeps_cache [of example_stage 20 refusing_controller]
    by blast
qed

section \<open>The polling loop\<close>

lemma time_sleep_ok:
  "0 \<le> p \<Longrightarrow> p * 10 ^ 9 < 2 ^ 63 \<Longrightarrow> time_sleep (Finite p) = None"
  by (simp add: time_sleep_def)

lemma read_position_once_result:
  assumes "axis s = Some a"
  shows "read_position_once s c =
           (if raises c (calls c) GetPosition
            then (s, c\<lparr>calls := calls c @ [GetPosition]\<rparr>)
            else if raises c (calls c @ [GetPosition]) IsBusy
            then (s, c\<lparr>calls := calls c @ [GetPosition, IsBusy]\<rparr>)
            else (s\<lparr>current_position := position_at c (calls c),
                    is_moving := busy_at c (calls c @ [GetPosition]),
                    current_velocity :=
                      (if busy_at c (calls c @ [GetPosition]) then current_velocity s else 0)\<rparr>,
                  c\<lparr>calls := calls c @ [GetPosition, IsBusy]\<rparr>))"
  using assms
  by (simp add: read_position_once_def axis_get_position_def axis_is_busy_def sdk_def)

lemma read_position_once_keeps:
  assumes "axis s = Some a"
  shows "axis (fst (read_position_once s c)) = Some a"
    and "reading_interval (fst (read_position_once s c)) = reading_interval s"
    and "count_list (calls (snd (read_position_once s c))) GetPosition =
           Suc (count_list (calls c) GetPosition)"
  using assms by (simp_all add: read_position_once_result [OF assms])

lemma read_position_loop_runs:
  assumes "axis s = Some a" and "time_sleep (reading_interval s) = None"
  shows "read_position_loop n s c = Inr (((\<lambda>(s, c). read_position_once s c) ^^ n) (s, c)) \<and>
         count_list (calls (snd (((\<lambda>(s, c). read_position_once s c) ^^ n) (s, c)))) GetPosition =
           count_list (calls c) GetPosition + n"
  using assms
proof (induction n arbitrary: s c)
  case 0
  show ?case by simp
next
  case (Suc n)
  obtain s' c' where step: "read_position_once s c = (s', c')"
    by (cases "read_position_once s c")
  have k: "axis s' = Some a" "reading_interval s' = reading_interval s"
    "count_list (calls c') GetPosition = Suc (count_list (calls c) GetPosition)"
    using read_position_once_keeps [OF Suc.prems(1), of c] step by simp_all
  have sl: "time_sleep (reading_interval s') = None"
    using k(2) Suc.prems(2) by simp
  have ih: "read_position_loop n s' c' =
              Inr (((\<lambda>(s, c). read_position_once s c) ^^ n) (s', c')) \<and>
            count_list (calls (snd (((\<lambda>(s, c). read_position_once s c) ^^ n) (s', c'))))
              GetPosition = count_list (calls c') GetPosition + n"
    by (rule Suc.IH [OF k(1) sl])
  have f: "((\<lambda>(s, c). read_position_once s c) ^^ Suc n) (s, c) =
           ((\<lambda>(s, c). read_position_once s c) ^^ n) (s', c')"
    using step by (simp add: funpow_swap1)
  show ?case
    unfolding f using ih step sl k(3) by simp
qed

text \<open>
  When \<^verbatim>\<open>time.sleep\<close> refuses the period, the first pass ends the thread with what
  the sleep raises, whatever the reads did.
\<close>

lemma read_position_loop_sleep_raises:
  assumes "time_sleep (reading_interval s) = Some e"
  shows "read_position_loop (Suc n) s c = Inl e"
proof -
  obtain s' c' where step: "read_position_once s c = (s', c')"
    by (cases "read_position_once s c")
  have "reading_interval s' = reading_interval s"
    using step
    by (auto simp: read_position_once_def axis_get_position_def axis_is_busy_def sdk_def
        split: option.splits if_splits)
  then show ?thesis using step assms by simp
qed

text \<open>
  Claim C7. One pass of the polling loop on a stage with an axis: when both reads
  succeed, the cached position and moving flag become the values read, and the cached
  velocity becomes 0 if the flag read is false and is kept if it is true; when either
  read raises, the object is unchanged and the pass ends there, having raised nothing.
  With a polling period that \<^verbatim>\<open>time.sleep\<close> accepts, the loop that is left to make
  \<open>n\<close> passes makes all of them, whichever reads fail: its result is the pass
  applied \<open>n\<close> times, and the controller has been asked for the position \<open>n\<close> more
  times.
\<close>

theorem polling_cycle_updates_or_keeps:
  assumes "axis s = Some a"
  shows "(\<not> raises c (calls c) GetPosition \<and> \<not> raises c (calls c @ [GetPosition]) IsBusy \<longrightarrow>
            read_position_once s c =
              (s\<lparr>current_position := position_at c (calls c),
                 is_moving := busy_at c (calls c @ [GetPosition]),
                 current_velocity :=
                   (if busy_at c (calls c @ [GetPosition]) then current_velocity s else 0)\<rparr>,
               c\<lparr>calls := calls c @ [GetPosition, IsBusy]\<rparr>)) \<and>
         (raises c (calls c) GetPosition \<longrightarrow>
            read_position_once s c = (s, c\<lparr>calls := calls c @ [GetPosition]\<rparr>)) \<and>
         (\<not> raises c (calls c) GetPosition \<and> raises c (calls c @ [GetPosition]) IsBusy \<longrightarrow>
            read_position_once s c = (s, c\<lparr>calls := calls c @ [GetPosition, IsBusy]\<rparr>)) \<and>
         (time_sleep (reading_interval s) = None \<longrightarrow>
            read_position_loop n s c =
              Inr (((\<lambda>(s, c). read_position_once s c) ^^ n) (s, c)) \<and>
            count_list (calls (snd (((\<lambda>(s, c). read_position_once s c) ^^ n) (s, c))))
              GetPosition = count_list (calls c) GetPosition + n)"
  using read_position_once_result [OF assms, of c] read_position_loop_runs [OF assms, of n c]
  by simp

theorem polling_cycle_updates_or_keeps_witness:
  "axis example_stage = Some 1 \<and>
   \<not> raises example_controller (calls example_controller) GetPosition \<and>
   \<not> raises example_controller (calls example_controller @ [GetPosition]) IsBusy \<and>
   read_position_once example_stage example_controller =
     (example_stage\<lparr>current_position := 42, is_moving := False, current_velocity := 0\<rparr>,
      example_controller\<lparr>calls := [GetPosition, IsBusy]\<rparr>) \<and>
   raises refusing_controller (calls refusing_controller) GetPosition \<and>
   read_position_once example_stage refusing_controller =
     (example_stage, refusing_controller\<lparr>calls := [GetPosition]\<rparr>) \<and>
   time_sleep (reading_interval example_stage) = None \<and>
   read_position_loop 3 example_stage refusing_controller =
     Inr (example_stage, refusing_controller\<lparr>calls := [GetPosition, GetPosition, GetPosition]\<rparr>)"
proof -
  have a: "axis example_stage = Some 1" by (simp add: example_stage_def)
  have sl: "time_sleep (reading_interval example_stage) = None"
    by (simp add: example_stage_def time_sleep_def)
  have c0: "calls example_controller = []" "calls refusing_controller = []"
    "\<And>h k. \<not> raises example_controller h k" "\<And>h k. raises refusing_controller h k"
    "\<And>h. position_at example_controller h = 42" "\<And>h. \<not> busy_at example_controller h"
    by (simp_all add: example_controller_def refusing_controller_def)
  have r1: "read_position_once example_stage refusing_controller =
              (example_stage, refusing_controller\<lparr>calls := [GetPosition]\<rparr>)"
    using polling_cycle_updates_or_keeps [OF a, of refusing_controller 3] c0 by simp
  have r2: "read_position_once example_stage (refusing_controller\<lparr>calls := [GetPosition]\<rparr>) =
              (example_stage, refusing_controller\<lparr>calls := [GetPosition, GetPosition]\<rparr>)"
    using polling_cycle_updates_or_keeps [OF a, of "refusing_controller\<lparr>calls := [GetPosition]\<rparr>" 3]
      c0 by (simp add: refusing_controller_def)
  have r3: "read_position_once example_stage
              (refusing_controller\<lparr>calls := [GetPosition, GetPosition]\<rparr>) =
              (example_stage,
               refusing_controller\<lparr>calls := [GetPosition, GetPosition, GetPosition]\<rparr>)"
    using polling_cycle_updates_or_keeps
            [OF a, of "refusing_controller\<lparr>calls := [GetPosition, GetPosition]\<rparr>" 3]
      c0 by (simp add: refusing_controller_def)
  have three: "((\<lambda>(s, c). read_position_once s c) ^^ 3) (example_stage, refusing_controller) =
      (example_stage, refusing_controller\<lparr>calls := [GetPosition, GetPosition, GetPosition]\<rparr>)"
    by (simp add: numeral_3_eq_3 r1 r2 r3)
  show ?thesis
    using a sl c0 r1 three
      polling_cycle_updates_or_keeps [OF a, of example_controller 3]
      polling_cycle_updates_or_keeps [OF a, of refusing_controller 3]
    by simp
qed

section \<open>Configuration files\<close>

lemma one_over_in_range:
  assumes "1 / 2 ^ 1022 \<le> \<bar>x\<bar>" and "\<bar>x\<bar> \<le> 2 ^ 1022"
  shows "one_over (Finite x) = Inr (Finite (round_double (1 / x)))"
proof -
  have x0: "x \<noteq> 0"
  proof
    assume "x = 0"
    then have "(1::real) / 2 ^ 1022 \<le> 0" using assms(1) by simp
    then show False by simp
  qed
  have r: "1 / 2 ^ 1022 \<le> \<bar>1 / x\<bar>" "\<bar>1 / x\<bar> \<le> 2 ^ 1022"
    by (rule reciprocal_range [OF assms])+
  have "\<bar>1 / x\<bar> \<le> 2 ^ 1023"
  proof -
    have "(2::real) ^ 1022 \<le> 2 ^ 1023" by simp
    then show ?thesis using r(2) by linarith
  qed
  then have "to_double (1 / x) = Finite (round_double (1 / x))"
    using r(1) by (intro to_double_in_range)
  then show ?thesis using x0 by (simp add: one_over_def)
qed

lemma one_over_200: "one_over (Finite 200) = Inr (Finite (5764607523034235 / 2 ^ 60))"
  using one_over_in_range [of 200] by (simp add: round_double_200)

lemma one_over_100: "one_over (Finite 100) = Inr (Finite (5764607523034235 / 2 ^ 59))"
  using one_over_in_range [of 100] by (simp add: round_double_100)

lemma round_double_period: "round_double (1 / (5764607523034235 / 2 ^ 59)) = 100"
proof -
  have "round_double (2 ^ 59 / 5764607523034235) =
          of_int (round_half_even ((2 ^ 59 / 5764607523034235) * 2 ^ 46)) / 2 ^ 46"
    by (rule round_double_binade) simp_all
  also have "round_half_even ((2 ^ 59 / 5764607523034235) * 2 ^ 46) = 7036874417766400"
    by (simp add: round_half_even_def Let_def)
  finally have "round_double (2 ^ 59 / 5764607523034235) = 100" by simp
  moreover have "1 / (5764607523034235 / 2 ^ 59) = (2 ^ 59 / 5764607523034235 :: real)"
    by simp
  ultimately show ?thesis by (simp only:)
qed

lemma one_over_period:
  "one_over (Finite (5764607523034235 / 2 ^ 59)) = Inr (Finite 100)"
proof -
  have "one_over (Finite (5764607523034235 / 2 ^ 59)) =
          Inr (Finite (round_double (1 / (5764607523034235 / 2 ^ 59))))"
    by (rule one_over_in_range) simp_all
  then show ?thesis by (simp only: round_double_period)
qed

text \<open>
  Claim C4, evaluated where it fails. A configuration file that asks for 200 Hz is
  loaded with success and leaves the polling period at the double \<^verbatim>\<open>0.005\<close>
  (\<open>5764607523034235 / 2\<^sup>6\<^sup>0\<close>), below the \<^verbatim>\<open>0.01\<close> that the constructor's
  \<^verbatim>\<open>min(reading_rate_hz, 100.0)\<close> keeps to; the constructor itself, called with its
  defaults next to that file, returns an object with that period.
\<close>

theorem load_config_rate_not_clamped:
  "fst (load_config None fresh_stage (world_with fast_config)) \<and>
   reading_interval (snd (load_config None fresh_stage (world_with fast_config))) =
     Finite (5764607523034235 / 2 ^ 60) \<and>
   (5764607523034235 / 2 ^ 60 :: real) < 1 / 100 \<and>
   float_lt (reading_interval (snd (load_config None fresh_stage (world_with fast_config))))
     (reading_interval fresh_stage) \<and>
   init ''auto'' (0, 100) 10 (Finite 100) None (world_with fast_config) =
     Inr (fresh_stage\<lparr>reading_interval := Finite (5764607523034235 / 2 ^ 60)\<rparr>)"
  by (simp add: init_def load_config_def filename_or_config_file_def fresh_stage_def
      world_with_def example_world_def fast_config_def DEFAULT_CONFIG_FILE_def
      one_over_200 one_over_100 min_py_def float_lt_def)

text \<open>
  Without a configuration file the constructor keeps the period at or above the double
  \<^verbatim>\<open>0.01\<close> for every positive rate.
\<close>

lemma round_half_even_mono:
  assumes "x \<le> y"
  shows "round_half_even x \<le> round_half_even y"
proof -
  have f: "\<lfloor>x\<rfloor> \<le> \<lfloor>y\<rfloor>" using assms by (rule floor_mono)
  have bx: "round_half_even x \<le> \<lfloor>x\<rfloor> + 1" and by': "\<lfloor>y\<rfloor> \<le> round_half_even y"
    by (simp_all add: round_half_even_def Let_def)
  show ?thesis
  proof (cases "\<lfloor>x\<rfloor> = \<lfloor>y\<rfloor>")
    case True
    then show ?thesis
      using assms by (auto simp: round_half_even_def Let_def)
  next
    case False
    then have "\<lfloor>x\<rfloor> + 1 \<le> \<lfloor>y\<rfloor>" using f by linarith
    then show ?thesis using bx by' by linarith
  qed
qed

lemma round_double_at_least_period:
  assumes "1 / 100 \<le> x"
  shows "5764607523034235 / 2 ^ 59 \<le> round_double x"
proof (cases "x < 2 ^ 53 / 2 ^ 59")
  case True
  have "round_double x = of_int (round_half_even (x * 2 ^ 59)) / 2 ^ 59"
    using assms True by (intro round_double_binade) simp_all
  moreover have "round_half_even ((1 / 100) * 2 ^ 59) \<le> round_half_even (x * 2 ^ 59)"
    using assms by (intro round_half_even_mono mult_right_mono) simp_all
  moreover have "round_half_even ((1 / 100) * 2 ^ 59) = 5764607523034235"
    by (simp add: round_half_even_def Let_def)
  ultimately have "round_double x \<ge> of_int 5764607523034235 / 2 ^ 59"
    by (simp add: divide_right_mono)
  then show ?thesis by simp
next
  case False
  then have x: "1 / 64 \<le> x" by simp
  then have n: "1 / 2 ^ 1022 \<le> \<bar>x\<bar>" by simp
  have "(5764607523034235 / 2 ^ 59 :: real) \<le> (1 - 1 / 2 ^ 53) * (1 / 64)" by simp
  also have "\<dots> \<le> (1 - 1 / 2 ^ 53) * \<bar>x\<bar>"
    using x by (intro mult_left_mono) simp_all
  also have "\<dots> \<le> \<bar>round_double x\<bar>"
    by (rule round_double_bounds(1) [OF n])
  finally have "5764607523034235 / 2 ^ 59 \<le> \<bar>round_double x\<bar>" .
  moreover have "0 < round_double x"
    using x by (intro round_double_pos) simp
  ultimately show ?thesis by simp
qed

lemma init_no_file_interval:
  assumes "files w (case cf of None \<Rightarrow> DEFAULT_CONFIG_FILE
                   | Some f \<Rightarrow> if f = [] then DEFAULT_CONFIG_FILE else f) = None"
    and "0 < r" and "init p lims mv (Finite r) cf w = Inr s"
  shows "\<not> float_lt (reading_interval s) (Finite (5764607523034235 / 2 ^ 59))"
proof -
  define m where "m = min r 100"
  have mp: "0 < m" "m \<le> 100" using assms(2) by (simp_all add: m_def)
  have mn: "min_py (Finite r) (Finite 100) = Finite m"
    by (simp add: min_py_def float_lt_def m_def min_def)
  have x: "1 / 100 \<le> 1 / m" using mp by (simp add: field_simps)
  have oo: "one_over (Finite m) = Inr (to_double (1 / m))"
    using mp by (simp add: one_over_def)
  have "reading_interval s = to_double (1 / m)"
    using assms(1,3) by (auto simp: init_def mn oo Let_def split: if_splits)
  moreover have "5764607523034235 / 2 ^ 59 \<le> round_double (1 / m)"
    by (rule round_double_at_least_period [OF x])
  moreover have "0 < FLOAT_MAX" by (simp add: FLOAT_MAX_def)
  ultimately show ?thesis
    by (simp add: to_double_def Let_def float_lt_def)
qed

lemma from_dict_None_iff: "device_info_from_dict j = None \<longleftrightarrow> missing_required_field j"
  by (simp add: device_info_from_dict_def missing_required_field_def split: option.splits)

lemma from_dict_to_dict: "device_info_from_dict (to_dict d) = Some d"
  by (simp add: device_info_from_dict_def to_dict_def)

lemma to_dict_truthy: "dict_truthy (to_dict d)"
  by (simp add: dict_truthy_def to_dict_def)

text \<open>
  Claim C8 as stated fails. The constructor called with the rate \<open>2\<^sup>-\<^sup>1\<^sup>0\<^sup>3\<^sup>0\<close> Hz
  returns \<open>slow_stage\<close>, whose period is infinite; \<^verbatim>\<open>save_config\<close> succeeds and
  stores the rate \<^verbatim>\<open>0.0\<close>; \<^verbatim>\<open>load_config\<close> of that file returns \<^verbatim>\<open>False\<close>.
\<close>

theorem slow_rate_roundtrip_fails:
  "init ''COM3'' (0, 100) 10 (Finite (1 / 2 ^ 1030)) None example_world = Inr slow_stage \<and>
   save_config None slow_stage example_world =
     (True, example_world\<lparr>files := (files example_world)(''zaber_config.json'' \<mapsto> Config
        \<lparr>cfg_port = Some (Some ''COM3''), cfg_position_limits_mm = Some [0, 100],
         cfg_max_velocity_mm_s = Some 10, cfg_reading_rate_hz = Some (Finite 0),
         cfg_device_info = None, cfg_timestamp = 0,
         cfg_timestamp_readable = ''2025-11-01 12:00:00''\<rparr>)\<rparr>) \<and>
   \<not> fst (load_config None fresh_stage (snd (save_config None slow_stage example_world)))"
proof -
  have o: "one_over (Finite (1 / 2 ^ 1030)) = Inr PosInf"
  proof -
    have "to_double (2 ^ 1030) = PosInf"
      by (rule to_double_overflow) simp
    then show ?thesis by (simp add: one_over_def)
  qed
  have m: "min_py (Finite (1 / 2 ^ 1030)) (Finite 100) = Finite (1 / 2 ^ 1030)"
    by (simp add: min_py_def float_lt_def)
  have i: "init ''COM3'' (0, 100) 10 (Finite (1 / 2 ^ 1030)) None example_world = Inr slow_stage"
    unfolding init_def m o
    by (simp add: slow_stage_def DEFAULT_CONFIG_FILE_def)
  have s: "save_config None slow_stage example_world =
     (True, example_world\<lparr>files := (files example_world)(''zaber_config.json'' \<mapsto> Config
        \<lparr>cfg_port = Some (Some ''COM3''), cfg_position_limits_mm = Some [0, 100],
         cfg_max_velocity_mm_s = Some 10, cfg_reading_rate_hz = Some (Finite 0),
         cfg_device_info = None, cfg_timestamp = 0,
         cfg_timestamp_readable = ''2025-11-01 12:00:00''\<rparr>)\<rparr>)"
    by (simp add: save_config_def filename_or_config_file_def slow_stage_def one_over_def
        example_world_def)
  have l: "\<not> fst (load_config None fresh_stage (snd (save_config None slow_stage example_world)))"
    by (simp add: s load_config_def filename_or_config_file_def fresh_stage_def one_over_def)
  show ?thesis using i s l by simp
qed

text \<open>
  Claim C8 as amended. For an object whose polling period \<open>p\<close> is finite with
  \<open>2\<^sup>-\<^sup>9\<^sup>9\<^sup>9 \<le> \<bar>p\<bar> \<le> 2\<^sup>9\<^sup>9\<^sup>9\<close> and whose file can be written, \<^verbatim>\<open>save_config\<close>
  succeeds and stores the rate \<open>r\<close>, the rounded \<open>1 / p\<close>; \<^verbatim>\<open>load_config\<close> of the
  same file name into any other object succeeds and gives it the saved port, limits
  and maximum velocity, a saved identity as it was, and the period \<^verbatim>\<open>1.0 / r\<close>. The
  rate \<^verbatim>\<open>1.0 / period\<close> of the loaded object is within \<open>\<bar>r\<bar> / 2\<^sup>5\<^sup>1\<close> of \<open>r\<close>, so
  within \<open>10\<^sup>-\<^sup>6\<close> whenever \<open>\<bar>r\<bar> \<le> 10\<^sup>9\<close>.
\<close>

theorem save_then_load_roundtrip:
  assumes "reading_interval s = Finite p"
    and "1 / 2 ^ 999 \<le> \<bar>p\<bar>" and "\<bar>p\<bar> \<le> 2 ^ 999"
    and "\<not> unwritable w (filename_or_config_file fn s)"
    and "filename_or_config_file fn' t = filename_or_config_file fn s"
  shows "let r = round_double (1 / p);
             w' = snd (save_config fn s w);
             s' = snd (load_config fn' t w')
         in fst (save_config fn s w) \<and> fst (load_config fn' t w') \<and>
            port s' = port s \<and> min_pos s' = min_pos s \<and> max_pos s' = max_pos s \<and>
            max_velocity s' = max_velocity s \<and>
            device_info s' = (case device_info s of None \<Rightarrow> device_info t | Some d \<Rightarrow> Some d) \<and>
            one_over (reading_interval s) = Inr (Finite r) \<and>
            reading_interval s' = Finite (round_double (1 / r)) \<and>
            one_over (reading_interval s') =
              Inr (Finite (round_double (1 / round_double (1 / r)))) \<and>
            \<bar>round_double (1 / round_double (1 / r)) - r\<bar> \<le> \<bar>r\<bar> / 2 ^ 51 \<and>
            (\<bar>r\<bar> \<le> 10 ^ 9 \<longrightarrow> \<bar>round_double (1 / round_double (1 / r)) - r\<bar> \<le> 1 / 10 ^ 6)"
proof -
  define r where "r = round_double (1 / p)"
  define q where "q = round_double (1 / r)"
  have small: "(1::real) / 2 ^ 1022 \<le> 1 / 2 ^ 999" "(1::real) / 2 ^ 1022 \<le> 1 / 2 ^ 1000"
    "(1::real) / 2 ^ 1022 \<le> 1 / 2 ^ 1001"
    "(2::real) ^ 999 \<le> 2 ^ 1022" "(2::real) ^ 1000 \<le> 2 ^ 1022" "(2::real) ^ 1001 \<le> 2 ^ 1022"
    by simp_all
  have p_inv: "1 / 2 ^ 999 \<le> \<bar>1 / p\<bar>" "\<bar>1 / p\<bar> \<le> 2 ^ 999"
    by (rule reciprocal_range [OF assms(2,3)])+
  have r_rng: "1 / 2 ^ 1000 \<le> \<bar>r\<bar>" "\<bar>r\<bar> \<le> 2 ^ 1000"
    using round_double_range [OF p_inv] by (simp_all add: r_def)
  have r_inv: "1 / 2 ^ 1000 \<le> \<bar>1 / r\<bar>" "\<bar>1 / r\<bar> \<le> 2 ^ 1000"
    by (rule reciprocal_range [OF r_rng])+
  have q_rng: "1 / 2 ^ 1001 \<le> \<bar>q\<bar>" "\<bar>q\<bar> \<le> 2 ^ 1001"
    using round_double_range [OF r_inv] by (simp_all add: q_def)
  have o1: "one_over (Finite p) = Inr (Finite r)"
    unfolding r_def using assms(2,3) small by (intro one_over_in_range) linarith+
  have o2: "one_over (Finite r) = Inr (Finite q)"
    unfolding q_def using r_rng small by (intro one_over_in_range) linarith+
  have o3: "one_over (Finite q) = Inr (Finite (round_double (1 / q)))"
    using q_rng small by (intro one_over_in_range) linarith+
  have err: "\<bar>round_double (1 / q) - r\<bar> \<le> \<bar>r\<bar> / 2 ^ 51"
    unfolding q_def by (rule reciprocal_twice_error [OF r_rng])
  have tol: "\<bar>r\<bar> \<le> 10 ^ 9 \<longrightarrow> \<bar>round_double (1 / q) - r\<bar> \<le> 1 / 10 ^ 6"
    using err rate_tolerance [of r] by linarith
  have sv: "save_config fn s w =
              (True, w\<lparr>files := (files w)(filename_or_config_file fn s \<mapsto> Config
                 \<lparr>cfg_port = Some (port s),
                  cfg_position_limits_mm = Some [min_pos s, max_pos s],
                  cfg_max_velocity_mm_s = Some (max_velocity s),
                  cfg_reading_rate_hz = Some (Finite r),
                  cfg_device_info =
                    (case device_info s of None \<Rightarrow> None | Some d \<Rightarrow> Some (to_dict d)),
                  cfg_timestamp = time_now w,
                  cfg_timestamp_readable = time_readable w\<rparr>)\<rparr>)"
    using assms(1,4) o1 by (simp add: save_config_def Let_def)
  have ld: "fst (load_config fn' t (snd (save_config fn s w)))"
    "port (snd (load_config fn' t (snd (save_config fn s w)))) = port s"
    "min_pos (snd (load_config fn' t (snd (save_config fn s w)))) = min_pos s"
    "max_pos (snd (load_config fn' t (snd (save_config fn s w)))) = max_pos s"
    "max_velocity (snd (load_config fn' t (snd (save_config fn s w)))) = max_velocity s"
    "device_info (snd (load_config fn' t (snd (save_config fn s w)))) =
       (case device_info s of None \<Rightarrow> device_info t | Some d \<Rightarrow> Some d)"
    "reading_interval (snd (load_config fn' t (snd (save_config fn s w)))) = Finite q"
    using assms(5) o2
    by (cases "device_info s";
        simp add: sv load_config_def Let_def from_dict_to_dict to_dict_truthy)+
  show ?thesis
    using sv ld o1 o3 err tol assms(1)
    by (simp add: Let_def r_def [symmetric] q_def [symmetric])
qed

theorem save_then_load_roundtrip_witness:
  "reading_interval example_stage = Finite (5764607523034235 / 2 ^ 59) \<and>
   (1::real) / 2 ^ 999 \<le> \<bar>5764607523034235 / 2 ^ 59\<bar> \<and>
   \<bar>5764607523034235 / 2 ^ 59\<bar> \<le> (2::real) ^ 999 \<and>
   \<not> unwritable example_world (filename_or_config_file None example_stage) \<and>
   filename_or_config_file None fresh_stage = filename_or_config_file None example_stage \<and>
   fst (save_config None example_stage example_world) \<and>
   fst (load_config None fresh_stage (snd (save_config None example_stage example_world))) \<and>
   port (snd (load_config None fresh_stage (snd (save_config None example_stage example_world))))
     = Some ''COM3'' \<and>
   one_over (reading_interval example_stage) = Inr (Finite 100) \<and>
   reading_interval
     (snd (load_config None fresh_stage (snd (save_config None example_stage example_world))))
     = Finite (5764607523034235 / 2 ^ 59)"
proof -
  have a: "reading_interval example_stage = Finite (5764607523034235 / 2 ^ 59)"
    by (simp add: example_stage_def)
  have r1: "(1::real) / 2 ^ 999 \<le> \<bar>5764607523034235 / 2 ^ 59\<bar>" by simp
  have r2: "\<bar>5764607523034235 / 2 ^ 59\<bar> \<le> (2::real) ^ 999" by simp
  have b: "\<not> unwritable example_world (filename_or_config_file None example_stage)"
    by (simp add: example_world_def)
  have c: "filename_or_config_file None fresh_stage =
           filename_or_config_file None example_stage"
    by (simp add: filename_or_config_file_def fresh_stage_def example_stage_def)
  have p: "port example_stage = Some ''COM3''" by (simp add: example_stage_def)
  have v: "round_double (1 / (5764607523034235 / 2 ^ 59)) = 100"
    by (rule round_double_period)
  have h: "round_double (1 / 100) = 5764607523034235 / 2 ^ 59"
    by (rule round_double_100)
  have t: "let r = round_double (1 / (5764607523034235 / 2 ^ 59));
             w' = snd (save_config None example_stage example_world);
             s' = snd (load_config None fresh_stage w')
         in fst (save_config None example_stage example_world) \<and>
            fst (load_config None fresh_stage w') \<and>
            port s' = port example_stage \<and> min_pos s' = min_pos example_stage \<and>
            max_pos s' = max_pos example_stage \<and>
            max_velocity s' = max_velocity example_stage \<and>
            device_info s' = (case device_info example_stage of None \<Rightarrow> device_info fresh_stage
                              | Some d \<Rightarrow> Some d) \<and>
            one_over (reading_interval example_stage) = Inr (Finite r) \<and>
            reading_interval s' = Finite (round_double (1 / r)) \<and>
            one_over (reading_interval s') =
              Inr (Finite (round_double (1 / round_double (1 / r)))) \<and>
            \<bar>round_double (1 / round_double (1 / r)) - r\<bar> \<le> \<bar>r\<bar> / 2 ^ 51 \<and>
            (\<bar>r\<bar> \<le> 10 ^ 9 \<longrightarrow> \<bar>round_double (1 / round_double (1 / r)) - r\<bar> \<le> 1 / 10 ^ 6)"
    by (rule save_then_load_roundtrip [OF a r1 r2 b c])
  show ?thesis
    using a b c p t [unfolded Let_def v h] by simp
qed

section \<open>A partial identity in the configuration file\<close>

text \<open>
  Claim C9 as stated fails: the file \<open>partial_identity_config\<close> holds an identity
  object with one of the seven fields, and \<^verbatim>\<open>load_config\<close> returns \<^verbatim>\<open>False\<close> on it.
\<close>

theorem partial_identity_load_fails:
  "cfg_device_info partial_identity_config = Some partial_identity \<and>
   dict_truthy partial_identity \<and> missing_required_field partial_identity \<and>
   \<not> fst (load_config None fresh_stage (world_with partial_identity_config))"
  by (simp add: load_config_def filename_or_config_file_def fresh_stage_def world_with_def
      example_world_def partial_identity_config_def partial_identity_def dict_truthy_def
      missing_required_field_def device_info_from_dict_def one_over_def)

lemma one_over_loadable:
  "x \<noteq> Finite 0 \<Longrightarrow> \<exists>q. one_over x = Inr q"
  by (cases x) (simp_all add: one_over_def)

lemma rate_loadable:
  assumes "settings_loadable cfg"
  shows "\<exists>q. one_over (case cfg_reading_rate_hz cfg of None \<Rightarrow> Finite 100 | Some r \<Rightarrow> r) = Inr q"
proof (cases "cfg_reading_rate_hz cfg")
  case None
  have "\<exists>q. one_over (Finite 100) = Inr q"
    by (rule one_over_loadable) simp
  then show ?thesis using None by simp
next
  case (Some r)
  then have "r \<noteq> Finite 0"
    using assms by (simp add: settings_loadable_def)
  then have "\<exists>q. one_over r = Inr q"
    by (rule one_over_loadable)
  then show ?thesis using Some by simp
qed

lemma load_config_settings:
  assumes "files w (filename_or_config_file fn s) = Some (Config cfg)"
    and "settings_loadable cfg"
  shows "settings_loaded cfg (snd (load_config fn s w))"
proof -
  obtain q where q: "one_over (case cfg_reading_rate_hz cfg of None \<Rightarrow> Finite 100 | Some r \<Rightarrow> r)
                       = Inr q"
    using rate_loadable [OF assms(2)] by blast
  show ?thesis
    using assms q
    by (simp add: load_config_def settings_loadable_def settings_loaded_def Let_def
        split: option.splits)
qed

lemma load_config_identity_partial:
  assumes "files w (filename_or_config_file fn s) = Some (Config cfg)"
    and "cfg_device_info cfg = Some j" and "dict_truthy j" and "missing_required_field j"
  shows "\<not> fst (load_config fn s w)"
    and "device_info (snd (load_config fn s w)) = device_info s"
  using assms from_dict_None_iff [of j]
  by (simp_all add: load_config_def Let_def split: sum.splits)

lemma load_config_identity_empty:
  assumes "files w (filename_or_config_file fn s) = Some (Config cfg)"
    and "cfg_device_info cfg = Some j" and "\<not> dict_truthy j" and "settings_loadable cfg"
  shows "fst (load_config fn s w)"
    and "device_info (snd (load_config fn s w)) = device_info s"
proof -
  obtain q where q: "one_over (case cfg_reading_rate_hz cfg of None \<Rightarrow> Finite 100 | Some r \<Rightarrow> r)
                       = Inr q"
    using rate_loadable [OF assms(4)] by blast
  show "fst (load_config fn s w)"
    and "device_info (snd (load_config fn s w)) = device_info s"
    using assms q
    by (simp_all add: load_config_def Let_def settings_loadable_def split: option.splits)
qed

text \<open>
  Claim C9 as amended. For a configuration file with an identity object: if the object
  is not empty and lacks one of the seven fields, \<^verbatim>\<open>load_config\<close> returns
  \<^verbatim>\<open>False\<close>, the identity of the object in memory stays what it was, and the other
  settings of a loadable record are loaded all the same; if the object is empty, it is
  passed over, and a loadable record is loaded with success.
\<close>

theorem load_config_partial_identity:
  assumes "files w (filename_or_config_file fn s) = Some (Config cfg)"
    and "cfg_device_info cfg = Some j"
  shows "(dict_truthy j \<and> missing_required_field j \<longrightarrow>
            \<not> fst (load_config fn s w) \<and>
            device_info (snd (load_config fn s w)) = device_info s \<and>
            (settings_loadable cfg \<longrightarrow> settings_loaded cfg (snd (load_config fn s w)))) \<and>
         (\<not> dict_truthy j \<and> settings_loadable cfg \<longrightarrow>
            fst (load_config fn s w) \<and>
            device_info (snd (load_config fn s w)) = device_info s \<and>
            settings_loaded cfg (snd (load_config fn s w)))"
  using load_config_settings [OF assms(1)] load_config_identity_partial [OF assms]
    load_config_identity_empty [OF assms]
  by blast

theorem load_config_partial_identity_witness:
  "files (world_with partial_identity_config) (filename_or_config_file None fresh_stage) =
     Some (Config partial_identity_config) \<and>
   cfg_device_info partial_identity_config = Some partial_identity \<and>
   dict_truthy partial_identity \<and> missing_required_field partial_identity \<and>
   settings_loadable partial_identity_config \<and>
   \<not> fst (load_config None fresh_stage (world_with partial_identity_config)) \<and>
   device_info (snd (load_config None fresh_stage (world_with partial_identity_config))) = None \<and>
   settings_loaded partial_identity_config
     (snd (load_config None fresh_stage (world_with partial_identity_config)))"
proof -
  have f: "files (world_with partial_identity_config) (filename_or_config_file None fresh_stage) =
     Some (Config partial_identity_config)"
    by (simp add: world_with_def example_world_def filename_or_config_file_def fresh_stage_def)
  have i: "cfg_device_info partial_identity_config = Some partial_identity"
    by (simp add: partial_identity_config_def)
  have d: "dict_truthy partial_identity" "missing_required_field partial_identity"
    by (simp_all add: dict_truthy_def missing_required_field_def partial_identity_def)
  have l: "settings_loadable partial_identity_config"
    by (simp add: settings_loadable_def partial_identity_config_def)
  have n: "device_info fresh_stage = None"
    by (simp add: fresh_stage_def)
  show ?thesis
    using f i d l n load_config_partial_identity [OF f i] by simp
qed

section \<open>Connecting\<close>

text \<open>
  A successful \<^verbatim>\<open>connect\<close> leaves the flag set and an axis in place, which is the
  state the theorems on the motion commands start from.
\<close>

lemma connect_open_axis:
  "fst (connect_open s w) \<longrightarrow>
     connected_flag (fst (snd (connect_open s w))) \<and> axis (fst (snd (connect_open s w))) \<noteq> None"
proof (cases "port s")
  case None
  then show ?thesis by (simp add: connect_open_def open_serial_port_def)
next
  case (Some p)
  then show ?thesis
    by (cases "device_info s")
       (simp_all add: connect_open_def open_serial_port_def detect_devices_def
          device_get_axis_def axis_is_homed_def axis_get_position_def sdk_def Let_def
          start_position_reading_def split: list.splits)
qed

lemma connect_explicit_port:
  "port s \<noteq> Some ''auto'' \<Longrightarrow> connect s w = connect_open s w"
  by (simp add: connect_def)

text \<open>
  The connection sequence, stage by stage: what \<^verbatim>\<open>connect\<close> returns, the calls it has
  made and the object it leaves when the open is refused, when detection raises or
  finds nothing, when the axis lookup raises, and when the homed query raises or
  succeeds.
\<close>

lemma connect_open_refused:
  assumes "port s = Some p" and "raises (ctl w) (calls (ctl w)) (OpenSerialPort p)"
  shows "connect_open s w =
           (False, s, w\<lparr>ctl := (ctl w)\<lparr>calls := calls (ctl w) @ [OpenSerialPort p]\<rparr>\<rparr>)"
  using assms
  by (simp add: connect_open_def open_serial_port_def sdk_def)

lemma connect_open_no_device:
  assumes "port s = Some p" and "\<not> raises (ctl w) (calls (ctl w)) (OpenSerialPort p)"
    and "raises (ctl w) (calls (ctl w) @ [OpenSerialPort p]) (DetectDevices p) \<or>
         detected (ctl w) (calls (ctl w) @ [OpenSerialPort p]) p = []"
  shows "connect_open s w =
           (False, s\<lparr>connection := Some p\<rparr>,
            w\<lparr>ctl := (ctl w)\<lparr>calls := calls (ctl w) @ [OpenSerialPort p, DetectDevices p]\<rparr>\<rparr>)"
  using assms
  by (auto simp: connect_open_def open_serial_port_def detect_devices_def sdk_def)

lemma connect_open_no_axis:
  assumes "port s = Some p" and "\<not> raises (ctl w) (calls (ctl w)) (OpenSerialPort p)"
    and "\<not> raises (ctl w) (calls (ctl w) @ [OpenSerialPort p]) (DetectDevices p)"
    and "detected (ctl w) (calls (ctl w) @ [OpenSerialPort p]) p = d # ds"
    and "raises (ctl w) (calls (ctl w) @ [OpenSerialPort p, DetectDevices p]) (GetAxis 1)"
  shows "connect_open s w =
           (False, s\<lparr>connection := Some p, device := Some d\<rparr>,
            w\<lparr>ctl := (ctl w)\<lparr>calls := calls (ctl w) @
                                    [OpenSerialPort p, DetectDevices p, GetAxis 1]\<rparr>\<rparr>)"
  using assms
  by (simp add: connect_open_def open_serial_port_def detect_devices_def device_get_axis_def
      sdk_def)

lemma connect_open_homed_query:
  assumes "port s = Some p" and "\<not> raises (ctl w) (calls (ctl w)) (OpenSerialPort p)"
    and "\<not> raises (ctl w) (calls (ctl w) @ [OpenSerialPort p]) (DetectDevices p)"
    and "detected (ctl w) (calls (ctl w) @ [OpenSerialPort p]) p = d # ds"
    and "\<not> raises (ctl w) (calls (ctl w) @ [OpenSerialPort p, DetectDevices p]) (GetAxis 1)"
  shows "(raises (ctl w) (calls (ctl w) @ [OpenSerialPort p, DetectDevices p, GetAxis 1])
            AxisIsHomed \<longrightarrow>
          \<not> fst (connect_open s w) \<and>
          calls (ctl (snd (snd (connect_open s w)))) =
            calls (ctl w) @ [OpenSerialPort p, DetectDevices p, GetAxis 1, AxisIsHomed] \<and>
          same_cache s (fst (snd (connect_open s w))) \<and>
          connected_flag (fst (snd (connect_open s w))) = connected_flag s) \<and>
         (\<not> raises (ctl w) (calls (ctl w) @ [OpenSerialPort p, DetectDevices p, GetAxis 1])
              AxisIsHomed \<longrightarrow>
          fst (connect_open s w) \<and>
          calls (ctl (snd (snd (connect_open s w)))) =
            calls (ctl w) @
              [OpenSerialPort p, DetectDevices p, GetAxis 1, AxisIsHomed, GetPosition] \<and>
          connection (fst (snd (connect_open s w))) = Some p \<and>
          device (fst (snd (connect_open s w))) = Some d \<and>
          axis (fst (snd (connect_open s w))) = Some 1 \<and>
          is_homed (fst (snd (connect_open s w))) =
            homed_at (ctl w) (calls (ctl w) @ [OpenSerialPort p, DetectDevices p, GetAxis 1]) \<and>
          current_position (fst (snd (connect_open s w))) =
            (if raises (ctl w)
                  (calls (ctl w) @ [OpenSerialPort p, DetectDevices p, GetAxis 1, AxisIsHomed])
                  GetPosition
             then 0
             else position_at (ctl w)
                    (calls (ctl w) @
                       [OpenSerialPort p, DetectDevices p, GetAxis 1, AxisIsHomed])) \<and>
          connected_flag (fst (snd (connect_open s w))) \<and>
          reading_thread (fst (snd (connect_open s w))))"
  using assms
  by (cases "device_info s")
     (simp_all add: connect_open_def open_serial_port_def detect_devices_def
        device_get_axis_def axis_is_homed_def axis_get_position_def sdk_def Let_def
        start_position_reading_def same_cache_def)

text \<open>
  Claim C5 as stated fails. \<open>example_stage\<close> is connected on \<^verbatim>\<open>COM3\<close>. With a
  controller that refuses a second open of the port, \<^verbatim>\<open>connect\<close> returns
  \<^verbatim>\<open>False\<close> after calling \<^verbatim>\<open>open_serial_port\<close>; with a controller that accepts
  everything it returns \<^verbatim>\<open>True\<close>, after opening the port again and repeating
  detection, axis lookup and the two reads.
\<close>

theorem connect_while_connected_reopens:
  "connected_flag example_stage \<and> port example_stage = Some ''COM3'' \<and>
   \<not> fst (connect example_stage (example_world\<lparr>ctl := refusing_controller\<rparr>)) \<and>
   calls (ctl (snd (snd (connect example_stage (example_world\<lparr>ctl := refusing_controller\<rparr>)))))
     = [OpenSerialPort ''COM3''] \<and>
   fst (connect example_stage (example_world\<lparr>ctl := device_controller\<rparr>)) \<and>
   calls (ctl (snd (snd (connect example_stage (example_world\<lparr>ctl := device_controller\<rparr>)))))
     = [OpenSerialPort ''COM3'', DetectDevices ''COM3'', GetAxis 1, AxisIsHomed, GetPosition]"
  by (simp add: connect_def connect_open_def open_serial_port_def detect_devices_def
      device_get_axis_def axis_is_homed_def axis_get_position_def sdk_def Let_def
      example_stage_def example_world_def refusing_controller_def device_controller_def
      example_controller_def example_device_def)

text \<open>
  Claim C5 as amended. On a connected stage with an explicit port, \<^verbatim>\<open>connect\<close> runs
  the connection sequence again, call by call: it opens the port, detects devices, looks
  up axis 1, asks whether it is homed and reads the position, stopping with
  \<^verbatim>\<open>False\<close> at the first of the first four calls that raises, or after a detection
  that finds no device. A refused open leaves the object as it was; a refused homed
  query leaves the cache and the connected flag as they were. When the four calls are
  accepted and a device is found it returns \<^verbatim>\<open>True\<close>, and the object holds the new
  connection, device and axis, the homed flag the controller reported, and the position
  read (0 when that read raised).
\<close>

theorem connect_connected_rerun:
  assumes "connected_flag s" and "port s = Some p" and "p \<noteq> ''auto''"
  shows "(raises (ctl w) (calls (ctl w)) (OpenSerialPort p) \<longrightarrow>
            connect s w =
              (False, s, w\<lparr>ctl := (ctl w)\<lparr>calls := calls (ctl w) @ [OpenSerialPort p]\<rparr>\<rparr>)) \<and>
         (\<not> raises (ctl w) (calls (ctl w)) (OpenSerialPort p) \<and>
          (raises (ctl w) (calls (ctl w) @ [OpenSerialPort p]) (DetectDevices p) \<or>
           detected (ctl w) (calls (ctl w) @ [OpenSerialPort p]) p = []) \<longrightarrow>
            connect s w =
              (False, s\<lparr>connection := Some p\<rparr>,
               w\<lparr>ctl := (ctl w)\<lparr>calls := calls (ctl w) @
                                       [OpenSerialPort p, DetectDevices p]\<rparr>\<rparr>)) \<and>
         (\<not> raises (ctl w) (calls (ctl w)) (OpenSerialPort p) \<and>
          \<not> raises (ctl w) (calls (ctl w) @ [OpenSerialPort p]) (DetectDevices p) \<and>
          detected (ctl w) (calls (ctl w) @ [OpenSerialPort p]) p = d # ds \<longrightarrow>
            (raises (ctl w) (calls (ctl w) @ [OpenSerialPort p, DetectDevices p]) (GetAxis 1) \<longrightarrow>
               connect s w =
                 (False, s\<lparr>connection := Some p, device := Some d\<rparr>,
                  w\<lparr>ctl := (ctl w)\<lparr>calls := calls (ctl w) @
                                   [OpenSerialPort p, DetectDevices p, GetAxis 1]\<rparr>\<rparr>)) \<and>
            (\<not> raises (ctl w) (calls (ctl w) @ [OpenSerialPort p, DetectDevices p]) (GetAxis 1) \<and>
             raises (ctl w) (calls (ctl w) @ [OpenSerialPort p, DetectDevices p, GetAxis 1])
               AxisIsHomed \<longrightarrow>
               \<not> fst (connect s w) \<and>
               calls (ctl (snd (snd (connect s w)))) =
                 calls (ctl w) @ [OpenSerialPort p, DetectDevices p, GetAxis 1, AxisIsHomed] \<and>
               same_cache s (fst (snd (connect s w))) \<and>
               connected_flag (fst (snd (connect s w)))) \<and>
            (\<not> raises (ctl w) (calls (ctl w) @ [OpenSerialPort p, DetectDevices p]) (GetAxis 1) \<and>
             \<not> raises (ctl w) (calls (ctl w) @ [OpenSerialPort p, DetectDevices p, GetAxis 1])
                 AxisIsHomed \<longrightarrow>
               fst (connect s w) \<and>
               calls (ctl (snd (snd (connect s w)))) =
                 calls (ctl w) @
                   [OpenSerialPort p, DetectDevices p, GetAxis 1, AxisIsHomed, GetPosition] \<and>
               connection (fst (snd (connect s w))) = Some p \<and>
               device (fst (snd (connect s w))) = Some d \<and>
               axis (fst (snd (connect s w))) = Some 1 \<and>
               is_homed (fst (snd (connect s w))) =
                 homed_at (ctl w)
                   (calls (ctl w) @ [OpenSerialPort p, DetectDevices p, GetAxis 1]) \<and>
               current_position (fst (snd (connect s w))) =
                 (if raises (ctl w)
                       (calls (ctl w) @
                          [OpenSerialPort p, DetectDevices p, GetAxis 1, AxisIsHomed])
                       GetPosition
                  then 0
                  else position_at (ctl w)
                         (calls (ctl w) @
                            [OpenSerialPort p, DetectDevices p, GetAxis 1, AxisIsHomed])) \<and>
               connected_flag (fst (snd (connect s w))) \<and>
               reading_thread (fst (snd (connect s w)))))"
proof -
  have e: "connect s w = connect_open s w"
    using assms(2,3) by (simp add: connect_explicit_port)
  show ?thesis
    unfolding e
    using connect_open_refused [OF assms(2), of w] connect_open_no_device [OF assms(2), of w]
      connect_open_no_axis [OF assms(2), of w d ds]
      connect_open_homed_query [OF assms(2), of w d ds] assms(1)
    by blast
qed

theorem connect_connected_rerun_witness:
  "connected_flag example_stage \<and> port example_stage = Some ''COM3'' \<and> ''COM3'' \<noteq> ''auto'' \<and>
   raises refusing_controller (calls refusing_controller) (OpenSerialPort ''COM3'') \<and>
   connect example_stage (example_world\<lparr>ctl := refusing_controller\<rparr>) =
     (False, example_stage,
      example_world\<lparr>ctl := refusing_controller\<lparr>calls := [OpenSerialPort ''COM3'']\<rparr>\<rparr>) \<and>
   \<not> raises device_controller (calls device_controller) (OpenSerialPort ''COM3'') \<and>
   detected device_controller (calls device_controller @ [OpenSerialPort ''COM3'']) ''COM3'' =
     [example_device] \<and>
   fst (connect example_stage (example_world\<lparr>ctl := device_controller\<rparr>)) \<and>
   calls (ctl (snd (snd (connect example_stage (example_world\<lparr>ctl := device_controller\<rparr>))))) =
     [OpenSerialPort ''COM3'', DetectDevices ''COM3'', GetAxis 1, AxisIsHomed, GetPosition] \<and>
   axis (fst (snd (connect example_stage (example_world\<lparr>ctl := device_controller\<rparr>)))) =
     Some 1 \<and>
   is_homed (fst (snd (connect example_stage (example_world\<lparr>ctl := device_controller\<rparr>)))) \<and>
   current_position
     (fst (snd (connect example_stage (example_world\<lparr>ctl := device_controller\<rparr>)))) = 42"
proof -
  have a: "connected_flag example_stage" "port example_stage = Some ''COM3''"
    by (simp_all add: example_stage_def)
  have b: "''COM3'' \<noteq> ''auto''" by simp
  have c: "ctl (example_world\<lparr>ctl := refusing_controller\<rparr>) = refusing_controller"
    "ctl (example_world\<lparr>ctl := device_controller\<rparr>) = device_controller" by simp_all
  have r: "\<And>h k. raises refusing_controller h k" "calls refusing_controller = []"
    by (simp_all add: refusing_controller_def example_controller_def)
  have d: "\<And>h k. \<not> raises device_controller h k" "calls device_controller = []"
    "\<And>h q. detected device_controller h q = [example_device]"
    "\<And>h. homed_at device_controller h" "\<And>h. position_at device_controller h = 42"
    by (simp_all add: device_controller_def example_controller_def)
  show ?thesis
    using a b r d
      connect_connected_rerun [OF a b, of "example_world\<lparr>ctl := refusing_controller\<rparr>"
        example_device "[]"]
      connect_connected_rerun [OF a b, of "example_world\<lparr>ctl := device_controller\<rparr>"
        example_device "[]"]
    unfolding c
    by simp
qed

end
